theory Spec2Isabelle
  imports Main "HOL-Library.Word"
begin

section \<open>Common data\<close>

text \<open>Go's \<open>[]byte\<close>; a nil slice and an empty slice are both the empty list, as
  \<open>bytes.Equal\<close> and \<open>len\<close> see them.\<close>

type_synonym bytes = "8 word list"

text \<open>\<open>bytes.HasPrefix(key, prefix)\<close>.\<close>

definition HasPrefix :: "bytes \<Rightarrow> bytes \<Rightarrow> bool" where
  "HasPrefix s p = (take (length p) s = p)"

section \<open>State stacks of the contexts\<close>

subsection \<open>Storage context (package contexts, src/unnamed/part_004)\<close>

text \<open>The fields of \<open>storageContext\<close> that belong to the context itself; the host and the
  blockchain hook it points to are part of the host state further down.\<close>

record storageContext =
  sc_address :: bytes
  sc_stateStack :: "bytes list"
  elrondProtectedKeyPrefix :: bytes
  arwenStorageProtectionEnabled :: bool
  flagUseDifferentGasCostForReadingCachedStorage :: bool

definition sc_PushState :: "storageContext \<Rightarrow> storageContext" where
  "sc_PushState c = c\<lparr>sc_stateStack := sc_stateStack c @ [sc_address c]\<rparr>"

definition sc_PopSetActiveState :: "storageContext \<Rightarrow> storageContext" where
  "sc_PopSetActiveState c =
     (let stateStackLen = length (sc_stateStack c) in
      if stateStackLen = 0 then c
      else
        let prevAddress = sc_stateStack c ! (stateStackLen - 1) in
        c\<lparr>sc_stateStack := take (stateStackLen - 1) (sc_stateStack c),
          sc_address := prevAddress\<rparr>)"

definition sc_PopDiscard :: "storageContext \<Rightarrow> storageContext" where
  "sc_PopDiscard c =
     (let stateStackLen = length (sc_stateStack c) in
      if stateStackLen = 0 then c
      else c\<lparr>sc_stateStack := take (stateStackLen - 1) (sc_stateStack c)\<rparr>)"

subsection \<open>Blockchain context (src/arwen/contexts/blockchain.go)\<close>

text \<open>The hook is an injected interface: \<open>hookSnapshot\<close> is the snapshot the hook is at, and
  \<open>RevertToSnapshot\<close> moves it there (its error is only logged by the context).\<close>

record blockchainContext =
  bc_stateStack :: "int list"
  hookSnapshot :: int

definition bc_PushState :: "blockchainContext \<Rightarrow> blockchainContext" where
  "bc_PushState c = c\<lparr>bc_stateStack := bc_stateStack c @ [hookSnapshot c]\<rparr>"

definition bc_PopSetActiveState :: "blockchainContext \<Rightarrow> blockchainContext" where
  "bc_PopSetActiveState c =
     (let stateStackLen = length (bc_stateStack c) in
      if stateStackLen = 0 then c
      else
        let prevSnapshot = bc_stateStack c ! (stateStackLen - 1) in
        c\<lparr>hookSnapshot := prevSnapshot,
          bc_stateStack := take (stateStackLen - 1) (bc_stateStack c)\<rparr>)"

definition bc_PopDiscard :: "blockchainContext \<Rightarrow> blockchainContext" where
  "bc_PopDiscard c =
     (let stateStackLen = length (bc_stateStack c) in
      if stateStackLen = 0 then c
      else c\<lparr>bc_stateStack := take (stateStackLen - 1) (bc_stateStack c)\<rparr>)"

subsection \<open>Runtime context (package contexts, src/unnamed/part_005)\<close>

record ESDTTransfer =
  ESDTValue :: int
  ESDTTokenType :: nat
  ESDTTokenNonce :: nat
  ESDTTokenName :: bytes

datatype CallType = DirectCall | AsynchronousCall | AsynchronousCallBack | ESDTTransferAndExecute

text \<open>\<open>vmcommon.VMInput\<close>; \<open>CallValue\<close> is a \<open>*big.Int\<close> and may be nil.\<close>

record VMInput =
  CallerAddr :: bytes
  Arguments :: "bytes list"
  CallValue :: "int option"
  CallType :: CallType
  GasPrice :: nat
  GasProvided :: nat
  GasLocked :: nat
  OriginalTxHash :: bytes
  CurrentTxHash :: bytes
  PrevTxHash :: bytes
  ESDTTransfers :: "ESDTTransfer list"
  ReturnCallAfterError :: bool

text \<open>An entry of the state stack: the four fields \<open>PushState\<close> saves.\<close>

record runtimeState =
  rs_vmInput :: "VMInput option"
  rs_scAddress :: bytes
  rs_callFunction :: string
  rs_readOnly :: bool

text \<open>A Wasmer instance is a reference, compared by identity: a number here, \<open>None\<close> for
  nil. \<open>cleaned\<close> collects the instances whose \<open>Clean()\<close> was called.\<close>

record runtimeContext =
  rt_instance :: "nat option"
  rt_vmInput :: "VMInput option"
  rt_scAddress :: bytes
  rt_callFunction :: string
  rt_readOnly :: bool
  rt_stateStack :: "runtimeState list"
  rt_instanceStack :: "nat option list"
  cleaned :: "nat list"

definition copyESDTTransfer :: "ESDTTransfer \<Rightarrow> ESDTTransfer" where
  "copyESDTTransfer t =
     \<lparr>ESDTValue = ESDTValue t, ESDTTokenType = ESDTTokenType t,
      ESDTTokenNonce = ESDTTokenNonce t, ESDTTokenName = ESDTTokenName t\<rparr>"

text \<open>\<open>SetVMInput\<close> stores a clone of the input; a nil call value becomes zero.\<close>

definition cloneVMInput :: "VMInput \<Rightarrow> VMInput" where
  "cloneVMInput i =
     \<lparr>CallerAddr = CallerAddr i,
      Arguments = Arguments i,
      CallValue = Some (case CallValue i of None \<Rightarrow> 0 | Some v \<Rightarrow> v),
      CallType = CallType i,
      GasPrice = GasPrice i,
      GasProvided = GasProvided i,
      GasLocked = GasLocked i,
      OriginalTxHash = OriginalTxHash i,
      CurrentTxHash = CurrentTxHash i,
      PrevTxHash = PrevTxHash i,
      ESDTTransfers = map copyESDTTransfer (ESDTTransfers i),
      ReturnCallAfterError = ReturnCallAfterError i\<rparr>"

definition SetVMInput :: "VMInput option \<Rightarrow> runtimeContext \<Rightarrow> runtimeContext" where
  "SetVMInput vmInput c =
     (case vmInput of
        None \<Rightarrow> c\<lparr>rt_vmInput := None\<rparr>
      | Some i \<Rightarrow> c\<lparr>rt_vmInput := Some (cloneVMInput i)\<rparr>)"

definition CleanWasmerInstance :: "runtimeContext \<Rightarrow> runtimeContext" where
  "CleanWasmerInstance c =
     (case rt_instance c of
        None \<Rightarrow> c
      | Some i \<Rightarrow> c\<lparr>cleaned := cleaned c @ [i], rt_instance := None\<rparr>)"

definition pushInstance :: "runtimeContext \<Rightarrow> runtimeContext" where
  "pushInstance c = c\<lparr>rt_instanceStack := rt_instanceStack c @ [rt_instance c]\<rparr>"

definition popInstance :: "runtimeContext \<Rightarrow> runtimeContext" where
  "popInstance c =
     (let instanceStackLen = length (rt_instanceStack c) in
      if instanceStackLen = 0 then c
      else
        let prevInstance = rt_instanceStack c ! (instanceStackLen - 1);
            c1 = c\<lparr>rt_instanceStack := take (instanceStackLen - 1) (rt_instanceStack c)\<rparr>
        in if prevInstance = rt_instance c1 then c1
           else (CleanWasmerInstance c1)\<lparr>rt_instance := prevInstance\<rparr>)"

definition rt_PushState :: "runtimeContext \<Rightarrow> runtimeContext" where
  "rt_PushState c =
     (let newState = \<lparr>rs_vmInput = map_option cloneVMInput (rt_vmInput c),
                      rs_scAddress = rt_scAddress c,
                      rs_callFunction = rt_callFunction c,
                      rs_readOnly = rt_readOnly c\<rparr>
      in pushInstance (c\<lparr>rt_stateStack := rt_stateStack c @ [newState]\<rparr>))"

definition rt_PopSetActiveState :: "runtimeContext \<Rightarrow> runtimeContext" where
  "rt_PopSetActiveState c =
     (let stateStackLen = length (rt_stateStack c) in
      if stateStackLen = 0 then c
      else
        let prevState = rt_stateStack c ! (stateStackLen - 1);
            c1 = c\<lparr>rt_stateStack := take (stateStackLen - 1) (rt_stateStack c)\<rparr>;
            c2 = SetVMInput (rs_vmInput prevState) c1;
            c3 = c2\<lparr>rt_scAddress := rs_scAddress prevState,
                    rt_callFunction := rs_callFunction prevState,
                    rt_readOnly := rs_readOnly prevState\<rparr>
        in popInstance c3)"

definition rt_PopDiscard :: "runtimeContext \<Rightarrow> runtimeContext" where
  "rt_PopDiscard c =
     (let stateStackLen = length (rt_stateStack c) in
      if stateStackLen = 0 then c
      else popInstance (c\<lparr>rt_stateStack := take (stateStackLen - 1) (rt_stateStack c)\<rparr>))"

section \<open>Gas arithmetic and metering\<close>

datatype error =
    ErrNotEnoughGas
  | ErrStoreElrondReservedKey
  | ErrCannotWriteProtectedKey
  | ErrBadBounds
  | ErrNegativeLength
  | ErrDivZero
  | ErrNoBigIntUnderThisHandle
  | ErrBadLowerBounds
  | ErrCallBackFuncNotExpected
  | ErrAdditionOverflow
  | ErrUnmarshal
  | ErrExecutionFailed

text \<open>The return codes and breakpoint values that the modelled code sets.\<close>

datatype ReturnCode = Ok | UserError | OutOfGas | ExecutionFailed

datatype BreakpointValue =
  BreakpointNone | BreakpointExecutionFailed | BreakpointSignalError | BreakpointOutOfGas

definition MaxUint64 :: nat where
  "MaxUint64 = 2 ^ 64 - 1"

definition MaxInt64 :: nat where
  "MaxInt64 = 2 ^ 63 - 1"

text \<open>Modelled from the spec: package \<open>math\<close> is not among the sources. Gas is an unsigned
  64-bit integer and "all arithmetic saturates or explicitly fails on overflow": the
  one-result \<open>math.MulUint64\<close> and \<open>math.AddUint64\<close> used by the storage context saturate.\<close>

definition MulUint64 :: "nat \<Rightarrow> nat \<Rightarrow> nat" where
  "MulUint64 a b = (if a * b > MaxUint64 then MaxUint64 else a * b)"

definition AddUint64 :: "nat \<Rightarrow> nat \<Rightarrow> nat" where
  "AddUint64 a b = (if a + b > MaxUint64 then MaxUint64 else a + b)"

text \<open>The constants of package \<open>arwen\<close> and the entries of the gas schedule that the
  modelled code reads; their declarations are not among the sources, so they are
  parameters. \<open>NegativeLengthCharge\<close> is the gas that the managed-types context charges
  for a negative number of bytes, which neither the sources nor the specification fix.\<close>

record config =
  ProtectedStoragePrefix :: bytes
  AddressLen :: nat
  DataCopyPerByte :: nat
  PersistPerByte :: nat
  StorePerByte :: nat
  ReleasePerByte :: nat
  BigIntTDivCost :: nat
  BigIntTModCost :: nat
  BigIntEDivCost :: nat
  BigIntEModCost :: nat
  BigIntPowCost :: nat
  AsyncCallStep :: nat
  NegativeLengthCharge :: "int \<Rightarrow> nat"

section \<open>Storage context: reads and writes (src/unnamed/part_004)\<close>

datatype StorageStatus = StorageUnchanged | StorageModified | StorageAdded | StorageDeleted

record StorageUpdate =
  Offset :: bytes
  Data :: bytes
  Written :: bool

text \<open>What the modelled code reaches through its host: the runtime's read-only flag, error
  chain and breakpoint, the metering counters, the output's return code, return message (the
  error whose text it is) and refund counter, the storage updates of the output accounts,
  the storage behind the blockchain hook, the storage context, and the big-integer handle
  table of the managed-types context. Output accounts are created lazily on first
  reference, so \<open>storageUpdates\<close> gives every address its update map, empty until
  used.\<close>

record host =
  readOnly :: bool
  gasForExecution :: nat
  pointsUsed :: nat
  gasRefund :: nat
  storageUpdates :: "bytes \<Rightarrow> bytes \<rightharpoonup> StorageUpdate"
  hookStorage :: "bytes \<Rightarrow> bytes \<Rightarrow> bytes"
  storage :: storageContext
  bigIntValues :: "32 word \<rightharpoonup> int"
  allErrors :: "error list"
  returnCode :: ReturnCode
  returnMessage :: "error option"
  breakpointValue :: BreakpointValue
  fixOOGReturnCodeEnabled :: bool

text \<open>Modelled from the spec: the metering context is not among the sources.
  \<open>gas-left() = gas-for-execution - instance-points-used\<close>; \<open>use-gas(n)\<close> increases the
  used-points counter, saturating at int64-max; \<open>use-gas-bounded(n)\<close> fails with
  not-enough-gas if \<open>n > gas-left()\<close>, else applies; \<open>free-gas(n)\<close> increases the output's
  refund counter.\<close>

definition GasLeft :: "host \<Rightarrow> nat" where
  "GasLeft h = gasForExecution h - pointsUsed h"

definition UseGas :: "nat \<Rightarrow> host \<Rightarrow> host" where
  "UseGas n h = h\<lparr>pointsUsed := min (pointsUsed h + n) MaxInt64\<rparr>"

definition UseGasBounded :: "nat \<Rightarrow> host \<Rightarrow> error option \<times> host" where
  "UseGasBounded n h = (if n > GasLeft h then (Some ErrNotEnoughGas, h) else (None, UseGas n h))"

definition FreeGas :: "nat \<Rightarrow> host \<Rightarrow> host" where
  "FreeGas n h = h\<lparr>gasRefund := AddUint64 (gasRefund h) n\<rparr>"

definition isArwenProtectedKey :: "config \<Rightarrow> bytes \<Rightarrow> bool" where
  "isArwenProtectedKey cfg key = HasPrefix key (ProtectedStoragePrefix cfg)"

definition isElrondReservedKey :: "host \<Rightarrow> bytes \<Rightarrow> bool" where
  "isElrondReservedKey h key = HasPrefix key (elrondProtectedKeyPrefix (storage h))"

definition GetStorageUpdates :: "host \<Rightarrow> bytes \<Rightarrow> (bytes \<rightharpoonup> StorageUpdate)" where
  "GetStorageUpdates h address = storageUpdates h address"

text \<open>\<open>storageUpdates[string(key)] = u\<close> on the update map of \<open>address\<close>.\<close>

definition putStorageUpdate :: "bytes \<Rightarrow> bytes \<Rightarrow> StorageUpdate \<Rightarrow> host \<Rightarrow> host" where
  "putStorageUpdate address key u h =
     h\<lparr>storageUpdates := (storageUpdates h)(address := (storageUpdates h address)(key \<mapsto> u))\<rparr>"

definition getStorageFromAddressUnmetered ::
  "config \<Rightarrow> bytes \<Rightarrow> bytes \<Rightarrow> host \<Rightarrow> (bytes \<times> bool) \<times> host" where
  "getStorageFromAddressUnmetered cfg address key h =
     (if \<not> isArwenProtectedKey cfg key \<and> isElrondReservedKey h key \<and>
         flagUseDifferentGasCostForReadingCachedStorage (storage h)
      then ((hookStorage h address key, False), h)
      else
        (case GetStorageUpdates h address key of
           Some storageUpdate \<Rightarrow> ((Data storageUpdate, True), h)
         | None \<Rightarrow>
             let v = hookStorage h address key in
             ((v, False),
              putStorageUpdate address key \<lparr>Offset = key, Data = v, Written = False\<rparr> h)))"

definition GetStorageUnmetered :: "config \<Rightarrow> bytes \<Rightarrow> host \<Rightarrow> (bytes \<times> bool) \<times> host" where
  "GetStorageUnmetered cfg key h =
     getStorageFromAddressUnmetered cfg (sc_address (storage h)) key h"

definition useGasForValueIfNeeded :: "config \<Rightarrow> bytes \<Rightarrow> bool \<Rightarrow> host \<Rightarrow> host" where
  "useGasForValueIfNeeded cfg v usedCache h =
     (let gasFlagSet = flagUseDifferentGasCostForReadingCachedStorage (storage h) in
      if \<not> usedCache \<or> \<not> gasFlagSet
      then UseGas (MulUint64 (DataCopyPerByte cfg) (length v)) h
      else h)"

definition useExtraGasForKeyIfNeeded :: "config \<Rightarrow> bytes \<Rightarrow> bool \<Rightarrow> host \<Rightarrow> host" where
  "useExtraGasForKeyIfNeeded cfg key usedCache h =
     (if length key \<le> AddressLen cfg then h
      else
        let extraBytes = length key - AddressLen cfg;
            gasFlagSet = flagUseDifferentGasCostForReadingCachedStorage (storage h)
        in if \<not> gasFlagSet \<or> \<not> usedCache
           then UseGas (MulUint64 (DataCopyPerByte cfg) extraBytes) h
           else h)"

definition GetStorage :: "config \<Rightarrow> bytes \<Rightarrow> host \<Rightarrow> (bytes \<times> bool) \<times> host" where
  "GetStorage cfg key h =
     (case GetStorageUnmetered cfg key h of
        ((v, usedCache), h1) \<Rightarrow>
          ((v, usedCache),
           useGasForValueIfNeeded cfg v usedCache (useExtraGasForKeyIfNeeded cfg key usedCache h1)))"

definition getOldValue :: "config \<Rightarrow> bytes \<Rightarrow> bytes \<Rightarrow> host \<Rightarrow> (bytes \<times> bool) \<times> host" where
  "getOldValue cfg address key h =
     (case GetStorageUpdates h address key of
        None \<Rightarrow>
          (case GetStorageUnmetered cfg key h of
             ((oldValue, _), h1) \<Rightarrow>
               ((oldValue, False),
                putStorageUpdate address key
                  \<lparr>Offset = key, Data = oldValue, Written = False\<rparr> h1))
      | Some update \<Rightarrow> ((Data update, True), h))"

definition computeGasForKey :: "config \<Rightarrow> bytes \<Rightarrow> bool \<Rightarrow> host \<Rightarrow> nat" where
  "computeGasForKey cfg key usedCache h =
     (if length key > AddressLen cfg \<and>
         (\<not> usedCache \<or> \<not> flagUseDifferentGasCostForReadingCachedStorage (storage h))
      then MulUint64 (DataCopyPerByte cfg) (length key - AddressLen cfg)
      else 0)"

definition changeStorageUpdate :: "bytes \<Rightarrow> bytes \<Rightarrow> bytes \<Rightarrow> host \<Rightarrow> host" where
  "changeStorageUpdate address key v h =
     putStorageUpdate address key \<lparr>Offset = key, Data = v, Written = True\<rparr> h"

definition computeGasForSmallerValues :: "config \<Rightarrow> nat \<Rightarrow> nat \<Rightarrow> nat \<times> nat" where
  "computeGasForSmallerValues cfg missingLength len =
     (MulUint64 (PersistPerByte cfg) len, MulUint64 (ReleasePerByte cfg) missingLength)"

definition computeGasForBiggerValues :: "config \<Rightarrow> nat \<Rightarrow> nat \<Rightarrow> nat \<times> nat" where
  "computeGasForBiggerValues cfg lengthOldValue newValueExtraLength =
     (AddUint64 (MulUint64 (PersistPerByte cfg) lengthOldValue)
        (MulUint64 (StorePerByte cfg) newValueExtraLength), 0)"

definition storageAdded :: "config \<Rightarrow> nat \<Rightarrow> host \<Rightarrow> (StorageStatus \<times> error option) \<times> host" where
  "storageAdded cfg len h =
     (case UseGasBounded (MulUint64 (StorePerByte cfg) len) h of
        (Some err, h1) \<Rightarrow> ((StorageUnchanged, Some err), h1)
      | (None, h1) \<Rightarrow> ((StorageAdded, None), h1))"

definition storageDeleted :: "config \<Rightarrow> nat \<Rightarrow> host \<Rightarrow> (StorageStatus \<times> error option) \<times> host" where
  "storageDeleted cfg lengthOldValue h =
     ((StorageDeleted, None), FreeGas (MulUint64 (ReleasePerByte cfg) lengthOldValue) h)"

definition computeGasForUnchangedValue :: "config \<Rightarrow> nat \<Rightarrow> bool \<Rightarrow> host \<Rightarrow> nat" where
  "computeGasForUnchangedValue cfg len usedCache h =
     (if \<not> usedCache \<or> \<not> flagUseDifferentGasCostForReadingCachedStorage (storage h)
      then MulUint64 (DataCopyPerByte cfg) len
      else 0)"

definition storageUnchanged ::
  "config \<Rightarrow> nat \<Rightarrow> bool \<Rightarrow> host \<Rightarrow> (StorageStatus \<times> error option) \<times> host" where
  "storageUnchanged cfg len usedCache h =
     (case UseGasBounded (computeGasForUnchangedValue cfg len usedCache h) h of
        (Some err, h1) \<Rightarrow> ((StorageUnchanged, Some err), h1)
      | (None, h1) \<Rightarrow> ((StorageUnchanged, None), h1))"

text \<open>The tail of \<open>setStorageToAddress\<close>: both values non-empty and different.\<close>

definition storageModified ::
  "config \<Rightarrow> nat \<Rightarrow> nat \<Rightarrow> host \<Rightarrow> (StorageStatus \<times> error option) \<times> host" where
  "storageModified cfg len lengthOldValue h =
     (let (gasToUseForValue, gasToFreeForValue) =
            (if len > lengthOldValue
             then computeGasForBiggerValues cfg lengthOldValue (len - lengthOldValue)
             else if len < lengthOldValue
             then computeGasForSmallerValues cfg (lengthOldValue - len) len
             else (0, 0))
      in case UseGasBounded gasToUseForValue h of
           (Some err, h1) \<Rightarrow> ((StorageUnchanged, Some err), h1)
         | (None, h1) \<Rightarrow> ((StorageModified, None), FreeGas gasToFreeForValue h1))"

definition setStorageToAddress ::
  "config \<Rightarrow> bytes \<Rightarrow> bytes \<Rightarrow> bytes \<Rightarrow> host \<Rightarrow> (StorageStatus \<times> error option) \<times> host" where
  "setStorageToAddress cfg address key v h =
     (if readOnly h then ((StorageUnchanged, None), h)
      else if \<not> isArwenProtectedKey cfg key \<and> isElrondReservedKey h key
      then ((StorageUnchanged, Some ErrStoreElrondReservedKey), h)
      else if isArwenProtectedKey cfg key \<and> arwenStorageProtectionEnabled (storage h)
      then ((StorageUnchanged, Some ErrCannotWriteProtectedKey), h)
      else
        (case getOldValue cfg address key h of
           ((oldValue, usedCache), h1) \<Rightarrow>
             (case UseGasBounded (computeGasForKey cfg key usedCache h1) h1 of
                (Some err, h2) \<Rightarrow> ((StorageUnchanged, Some err), h2)
              | (None, h2) \<Rightarrow>
                  if oldValue = v then storageUnchanged cfg (length v) usedCache h2
                  else
                    let h3 = changeStorageUpdate address key v h2 in
                    if oldValue = [] then storageAdded cfg (length v) h3
                    else if v = [] then storageDeleted cfg (length oldValue) h3
                    else storageModified cfg (length v) (length oldValue) h3)))"

definition SetStorage ::
  "config \<Rightarrow> bytes \<Rightarrow> bytes \<Rightarrow> host \<Rightarrow> (StorageStatus \<times> error option) \<times> host" where
  "SetStorage cfg key v h = setStorageToAddress cfg (sc_address (storage h)) key v h"

subsection \<open>Concrete states used to run the storage model\<close>

definition exampleConfig :: config where
  "exampleConfig =
     \<lparr>ProtectedStoragePrefix = [65], AddressLen = 32, DataCopyPerByte = 3,
      PersistPerByte = 5, StorePerByte = 7, ReleasePerByte = 11,
      BigIntTDivCost = 10, BigIntTModCost = 10, BigIntEDivCost = 10, BigIntEModCost = 10,
      BigIntPowCost = 10, AsyncCallStep = 10, NegativeLengthCharge = (\<lambda>_. 0)\<rparr>"

definition exampleStorageContext :: storageContext where
  "exampleStorageContext =
     \<lparr>sc_address = [1], sc_stateStack = [], elrondProtectedKeyPrefix = [69],
      arwenStorageProtectionEnabled = True,
      flagUseDifferentGasCostForReadingCachedStorage = True\<rparr>"

text \<open>A host whose hook stores the two bytes 5, 5 under every non-empty key, and whose
  handle table holds 6 under handle 1 and 0 under handle 2.\<close>

definition exampleHost :: host where
  "exampleHost =
     \<lparr>readOnly = False, gasForExecution = 1000, pointsUsed = 0, gasRefund = 0,
      storageUpdates = (\<lambda>_. Map.empty),
      hookStorage = (\<lambda>_ k. if k = [] then [] else [5, 5]),
      storage = exampleStorageContext,
      bigIntValues = [1 \<mapsto> 6, 2 \<mapsto> 0],
      allErrors = [], returnCode = Ok, returnMessage = None,
      breakpointValue = BreakpointNone, fixOOGReturnCodeEnabled = True\<rparr>"

text \<open>The same host before the epoch that sets the flag, with the reserved key 69, 1 of the
  current account already in the cache.\<close>

definition cachedHost :: host where
  "cachedHost =
     exampleHost
       \<lparr>storageUpdates :=
          (\<lambda>_. Map.empty)([1] := [[69, 1] \<mapsto> \<lparr>Offset = [69, 1], Data = [9], Written = False\<rparr>]),
        storage :=
          exampleStorageContext\<lparr>flagUseDifferentGasCostForReadingCachedStorage := False\<rparr>\<rparr>"

section \<open>Big-integer operations of the EEI (src/arwen/elrondapi/bigIntOps.go)\<close>

text \<open>\<open>FailExecution\<close> and \<open>AddError\<close> of the runtime context. An error is or wraps
  \<open>ErrNotEnoughGas\<close> exactly when it is that error.\<close>

definition AddError :: "error \<Rightarrow> host \<Rightarrow> host" where
  "AddError err h = h\<lparr>allErrors := allErrors h @ [err]\<rparr>"

definition FailExecution :: "error option \<Rightarrow> host \<Rightarrow> host" where
  "FailExecution err h =
     (let h1 = h\<lparr>returnCode := ExecutionFailed\<rparr> in
      case err of
        Some e \<Rightarrow>
          (AddError e h1)
            \<lparr>returnMessage := Some e,
             breakpointValue :=
               (if e = ErrNotEnoughGas \<and> fixOOGReturnCodeEnabled h
                then BreakpointOutOfGas else BreakpointExecutionFailed)\<rparr>
      | None \<Rightarrow>
          (AddError ErrExecutionFailed h1)
            \<lparr>returnMessage := Some ErrExecutionFailed,
             breakpointValue := BreakpointExecutionFailed\<rparr>)"

definition BigIntAPIErrorShouldFailExecution :: bool where
  "BigIntAPIErrorShouldFailExecution = True"

text \<open>Modelled from the spec: \<open>WithFault\<close> is not among the sources. "On error, optionally
  mark the runtime failure (determined by per-API-class flags); append to the error chain;
  return a sentinel value": the result says whether there was an error. \<open>FailExecution\<close>
  appends the error itself.\<close>

definition WithFault :: "error option \<Rightarrow> bool \<Rightarrow> host \<Rightarrow> bool \<times> host" where
  "WithFault err failExecution h =
     (case err of
        None \<Rightarrow> (False, h)
      | Some e \<Rightarrow> (True, if failExecution then FailExecution (Some e) h else AddError e h))"

text \<open>Modelled from the spec: the managed-types context is not among the sources.
  Get-or-create "creates a zero value if the handle was never seen"; reading a handle that
  holds nothing is the error \<open>ErrNoBigIntUnderThisHandle\<close> ("there is no bigInt for the
  given handle").\<close>

definition GetBigIntOrCreate :: "32 word \<Rightarrow> host \<Rightarrow> int \<times> host" where
  "GetBigIntOrCreate handle h =
     (case bigIntValues h handle of
        Some v \<Rightarrow> (v, h)
      | None \<Rightarrow> (0, h\<lparr>bigIntValues := (bigIntValues h)(handle \<mapsto> 0)\<rparr>))"

definition GetTwoBigInt :: "32 word \<Rightarrow> 32 word \<Rightarrow> host \<Rightarrow> error + int \<times> int" where
  "GetTwoBigInt handle1 handle2 h =
     (case (bigIntValues h handle1, bigIntValues h handle2) of
        (Some a, Some b) \<Rightarrow> Inr (a, b)
      | _ \<Rightarrow> Inl ErrNoBigIntUnderThisHandle)"

text \<open>\<open>(*big.Int).BitLen\<close>: the length of the absolute value in bits, 0 for 0.\<close>

fun bitLenNat :: "nat \<Rightarrow> nat" where
  "bitLenNat n = (if n = 0 then 0 else Suc (bitLenNat (n div 2)))"

declare bitLenNat.simps [simp del]

definition BitLen :: "int \<Rightarrow> nat" where
  "BitLen a = bitLenNat (nat \<bar>a\<bar>)"

text \<open>Modelled from the spec: \<open>ConsumeGasForBigIntCopy\<close> "deducts per-byte cost for the
  aggregate byte length" of its arguments, and \<open>ConsumeGasForThisBigIntNumberOfBytes\<close>
  deducts "a bound proportional to the expected result byte length", at the same per-byte
  cost. \<open>BigIntPow\<close> can pass a negative length (it computes the length before it tests the
  sign of the exponent); the specification has no rule for that, so the charge is then the
  parameter \<open>NegativeLengthCharge\<close>.\<close>

definition byteLength :: "int \<Rightarrow> nat" where
  "byteLength v = (BitLen v + 7) div 8"

definition ConsumeGasForBigIntCopy :: "config \<Rightarrow> int list \<Rightarrow> host \<Rightarrow> host" where
  "ConsumeGasForBigIntCopy cfg vals h =
     UseGas (MulUint64 (DataCopyPerByte cfg) (sum_list (map byteLength vals))) h"

definition ConsumeGasForThisBigIntNumberOfBytes :: "config \<Rightarrow> int \<Rightarrow> host \<Rightarrow> host" where
  "ConsumeGasForThisBigIntNumberOfBytes cfg byteLen h =
     (if 0 \<le> byteLen then UseGas (MulUint64 (DataCopyPerByte cfg) (nat byteLen)) h
      else UseGas (NegativeLengthCharge cfg byteLen) h)"

text \<open>The \<open>math/big\<close> operations: \<open>Quo\<close> and \<open>Rem\<close> truncate towards zero, \<open>Div\<close> and
  \<open>Mod\<close> are Euclidean (the modulus is never negative). They are only called with a
  non-zero divisor.\<close>

definition Quo :: "int \<Rightarrow> int \<Rightarrow> int" where
  "Quo a b = sgn a * sgn b * (\<bar>a\<bar> div \<bar>b\<bar>)"

definition Rem :: "int \<Rightarrow> int \<Rightarrow> int" where
  "Rem a b = sgn a * (\<bar>a\<bar> mod \<bar>b\<bar>)"

definition EMod :: "int \<Rightarrow> int \<Rightarrow> int" where
  "EMod a b = a mod \<bar>b\<bar>"

definition EDiv :: "int \<Rightarrow> int \<Rightarrow> int" where
  "EDiv a b = sgn b * (a div \<bar>b\<bar>)"

definition setBigInt :: "32 word \<Rightarrow> int \<Rightarrow> host \<Rightarrow> host" where
  "setBigInt handle v h = h\<lparr>bigIntValues := (bigIntValues h)(handle \<mapsto> v)\<rparr>"

definition BigIntTDiv :: "config \<Rightarrow> 32 word \<Rightarrow> 32 word \<Rightarrow> 32 word \<Rightarrow> host \<Rightarrow> host" where
  "BigIntTDiv cfg destinationHandle op1Handle op2Handle h =
     (let h1 = UseGas (BigIntTDivCost cfg) h;
          (dest, h2) = GetBigIntOrCreate destinationHandle h1
      in case GetTwoBigInt op1Handle op2Handle h2 of
           Inl err \<Rightarrow> snd (WithFault (Some err) BigIntAPIErrorShouldFailExecution h2)
         | Inr (a, b) \<Rightarrow>
             let h3 = ConsumeGasForBigIntCopy cfg [dest, a, b] h2 in
             if b = 0
             then snd (WithFault (Some ErrDivZero) BigIntAPIErrorShouldFailExecution h3)
             else setBigInt destinationHandle (Quo a b) h3)"

definition BigIntTMod :: "config \<Rightarrow> 32 word \<Rightarrow> 32 word \<Rightarrow> 32 word \<Rightarrow> host \<Rightarrow> host" where
  "BigIntTMod cfg destinationHandle op1Handle op2Handle h =
     (let h1 = UseGas (BigIntTModCost cfg) h;
          (dest, h2) = GetBigIntOrCreate destinationHandle h1
      in case GetTwoBigInt op1Handle op2Handle h2 of
           Inl err \<Rightarrow> snd (WithFault (Some err) BigIntAPIErrorShouldFailExecution h2)
         | Inr (a, b) \<Rightarrow>
             let h3 = ConsumeGasForBigIntCopy cfg [dest, a, b] h2 in
             if b = 0
             then snd (WithFault (Some ErrDivZero) BigIntAPIErrorShouldFailExecution h3)
             else setBigInt destinationHandle (Rem a b) h3)"

definition BigIntEDiv :: "config \<Rightarrow> 32 word \<Rightarrow> 32 word \<Rightarrow> 32 word \<Rightarrow> host \<Rightarrow> host" where
  "BigIntEDiv cfg destinationHandle op1Handle op2Handle h =
     (let h1 = UseGas (BigIntEDivCost cfg) h;
          (dest, h2) = GetBigIntOrCreate destinationHandle h1
      in case GetTwoBigInt op1Handle op2Handle h2 of
           Inl err \<Rightarrow> snd (WithFault (Some err) BigIntAPIErrorShouldFailExecution h2)
         | Inr (a, b) \<Rightarrow>
             let h3 = ConsumeGasForBigIntCopy cfg [dest, a, b] h2 in
             if b = 0
             then snd (WithFault (Some ErrDivZero) BigIntAPIErrorShouldFailExecution h3)
             else setBigInt destinationHandle (EDiv a b) h3)"

definition BigIntEMod :: "config \<Rightarrow> 32 word \<Rightarrow> 32 word \<Rightarrow> 32 word \<Rightarrow> host \<Rightarrow> host" where
  "BigIntEMod cfg destinationHandle op1Handle op2Handle h =
     (let h1 = UseGas (BigIntEModCost cfg) h;
          (dest, h2) = GetBigIntOrCreate destinationHandle h1
      in case GetTwoBigInt op1Handle op2Handle h2 of
           Inl err \<Rightarrow> snd (WithFault (Some err) BigIntAPIErrorShouldFailExecution h2)
         | Inr (a, b) \<Rightarrow>
             let h3 = ConsumeGasForBigIntCopy cfg [dest, a, b] h2 in
             if b = 0
             then snd (WithFault (Some ErrDivZero) BigIntAPIErrorShouldFailExecution h3)
             else setBigInt destinationHandle (EMod a b) h3)"

text \<open>The length computed by \<open>BigIntPow\<close>:
  \<open>big.NewInt(0).Div(big.NewInt(0).Mul(b, big.NewInt(int64(a.BitLen()))), big.NewInt(8))\<close>.
  \<open>Div\<close> is Euclidean; for the positive divisor 8 that is \<open>div\<close>.\<close>

definition lengthOfResult :: "int \<Rightarrow> int \<Rightarrow> int" where
  "lengthOfResult a b = EDiv (b * int (BitLen a)) 8"

text \<open>The length as the specification words it: \<open>ceil(bits(base) \<times> exponent / 8)\<close>.\<close>

definition ceil_lengthOfResult :: "int \<Rightarrow> int \<Rightarrow> int" where
  "ceil_lengthOfResult a b = - ((- (int (BitLen a) * b)) div 8)"

definition BigIntPow :: "config \<Rightarrow> 32 word \<Rightarrow> 32 word \<Rightarrow> 32 word \<Rightarrow> host \<Rightarrow> host" where
  "BigIntPow cfg destinationHandle op1Handle op2Handle h =
     (let h1 = UseGas (BigIntPowCost cfg) h;
          (dest, h2) = GetBigIntOrCreate destinationHandle h1
      in case GetTwoBigInt op1Handle op2Handle h2 of
           Inl err \<Rightarrow> snd (WithFault (Some err) BigIntAPIErrorShouldFailExecution h2)
         | Inr (a, b) \<Rightarrow>
             let h3 = ConsumeGasForThisBigIntNumberOfBytes cfg (lengthOfResult a b) h2;
                 h4 = ConsumeGasForBigIntCopy cfg [a, b] h3
             in if b < 0
                then snd (WithFault (Some ErrBadLowerBounds) BigIntAPIErrorShouldFailExecution h4)
                else setBigInt destinationHandle (a ^ nat b) h4)"

section \<open>Asynchronous calls of the host (package host, src/unnamed/part_001)\<close>

datatype AsyncCallStatus = AsyncCallPending | AsyncCallResolved | AsyncCallRejected

text \<open>The fields of \<open>arwen.AsyncCall\<close>, \<open>arwen.AsyncCallGroup\<close> and \<open>arwen.AsyncContext\<close>
  that the host reads and writes. \<open>AsyncCallGroups\<close> is a Go map: the list holds its entries,
  with distinct group identifiers, in the order in which \<open>range\<close> visits them.\<close>

record AsyncCall =
  Status :: AsyncCallStatus
  Destination :: bytes
  CallData :: bytes
  GasLimit :: nat
  ProvidedGas :: nat
  ValueBytes :: bytes
  SuccessCallback :: string
  ErrorCallback :: string

record AsyncCallGroup =
  Callback :: string
  AsyncCalls :: "AsyncCall list"

record AsyncContext =
  ctx_CallerAddr :: bytes
  ctx_ReturnData :: bytes
  AsyncCallGroups :: "(string \<times> AsyncCallGroup) list"

subsection \<open>Gas of the async calls\<close>

text \<open>Modelled from the spec: the two-result \<open>math.AddUint64\<close> that \<open>setupAsyncCallsGas\<close>
  calls is not among the sources; it "explicitly fails on overflow".\<close>

definition AddUint64_checked :: "nat \<Rightarrow> nat \<Rightarrow> error + nat" where
  "AddUint64_checked a b = (if a + b > MaxUint64 then Inl ErrAdditionOverflow else Inr (a + b))"

text \<open>The first pair of loops of \<open>setupAsyncCallsGas\<close>, over the calls of one group and
  over the groups. The calls are changed in place, so the calls reached before an error
  keep their new gas limit; the result carries the error, the gas needed so far, the
  number of calls with zero gas and the calls as they are left.\<close>

fun setupGasOfCalls ::
  "nat \<Rightarrow> nat \<Rightarrow> nat \<Rightarrow> AsyncCall list \<Rightarrow> error option \<times> nat \<times> nat \<times> AsyncCall list" where
  "setupGasOfCalls gasLeft gasNeeded callsWithZeroGas [] =
     (None, gasNeeded, callsWithZeroGas, [])"
| "setupGasOfCalls gasLeft gasNeeded callsWithZeroGas (asyncCall # rest) =
     (case AddUint64_checked gasNeeded (ProvidedGas asyncCall) of
        Inl err \<Rightarrow> (Some err, gasNeeded, callsWithZeroGas, asyncCall # rest)
      | Inr gasNeeded' \<Rightarrow>
          if gasNeeded' > gasLeft
          then (Some ErrNotEnoughGas, gasNeeded', callsWithZeroGas, asyncCall # rest)
          else if ProvidedGas asyncCall = 0
          then (case setupGasOfCalls gasLeft gasNeeded' (callsWithZeroGas + 1) rest of
                  (err, g, z, rest') \<Rightarrow> (err, g, z, asyncCall # rest'))
          else (case setupGasOfCalls gasLeft gasNeeded' callsWithZeroGas rest of
                  (err, g, z, rest') \<Rightarrow>
                    (err, g, z, asyncCall\<lparr>GasLimit := ProvidedGas asyncCall\<rparr> # rest')))"

fun setupGasOfGroups ::
  "nat \<Rightarrow> nat \<Rightarrow> nat \<Rightarrow> (string \<times> AsyncCallGroup) list \<Rightarrow>
   error option \<times> nat \<times> nat \<times> (string \<times> AsyncCallGroup) list" where
  "setupGasOfGroups gasLeft gasNeeded callsWithZeroGas [] =
     (None, gasNeeded, callsWithZeroGas, [])"
| "setupGasOfGroups gasLeft gasNeeded callsWithZeroGas ((groupID, asyncCallGroup) # rest) =
     (case setupGasOfCalls gasLeft gasNeeded callsWithZeroGas (AsyncCalls asyncCallGroup) of
        (Some err, g, z, calls') \<Rightarrow>
          (Some err, g, z, (groupID, asyncCallGroup\<lparr>AsyncCalls := calls'\<rparr>) # rest)
      | (None, g, z, calls') \<Rightarrow>
          (case setupGasOfGroups gasLeft g z rest of
             (err, g', z', rest') \<Rightarrow>
               (err, g', z', (groupID, asyncCallGroup\<lparr>AsyncCalls := calls'\<rparr>) # rest')))"

text \<open>The second pair of loops: every call with zero provided gas gets the share.\<close>

definition shareGas :: "nat \<Rightarrow> (string \<times> AsyncCallGroup) list \<Rightarrow> (string \<times> AsyncCallGroup) list" where
  "shareGas gasShare groups =
     map (\<lambda>(groupID, asyncCallGroup).
            (groupID,
             asyncCallGroup
               \<lparr>AsyncCalls :=
                  map (\<lambda>asyncCall.
                         if ProvidedGas asyncCall = 0 then asyncCall\<lparr>GasLimit := gasShare\<rparr>
                         else asyncCall)
                      (AsyncCalls asyncCallGroup)\<rparr>))
         groups"

definition setupAsyncCallsGas :: "host \<Rightarrow> AsyncContext \<Rightarrow> error option \<times> AsyncContext" where
  "setupAsyncCallsGas h asyncContext =
     (let gasLeft = GasLeft h in
      case setupGasOfGroups gasLeft 0 0 (AsyncCallGroups asyncContext) of
        (Some err, _, _, groups) \<Rightarrow> (Some err, asyncContext\<lparr>AsyncCallGroups := groups\<rparr>)
      | (None, gasNeeded, callsWithZeroGas, groups) \<Rightarrow>
          if callsWithZeroGas = 0 then (None, asyncContext\<lparr>AsyncCallGroups := groups\<rparr>)
          else if gasLeft \<le> gasNeeded
          then (Some ErrNotEnoughGas, asyncContext\<lparr>AsyncCallGroups := groups\<rparr>)
          else
            let gasShare = (gasLeft - gasNeeded) div callsWithZeroGas in
            (None, asyncContext\<lparr>AsyncCallGroups := shareGas gasShare groups\<rparr>))"

text \<open>What the gas setup is compared with: all calls of a context, the gas their developer
  specified, the number of calls specified with zero gas, and a context with the gas limit
  of every call set by a rule.\<close>

definition withGasLimits :: "(AsyncCall \<Rightarrow> nat) \<Rightarrow> AsyncContext \<Rightarrow> AsyncContext" where
  "withGasLimits limit asyncContext =
     asyncContext
       \<lparr>AsyncCallGroups :=
          map (\<lambda>(groupID, g). (groupID, g\<lparr>AsyncCalls := map (\<lambda>c. c\<lparr>GasLimit := limit c\<rparr>) (AsyncCalls g)\<rparr>))
            (AsyncCallGroups asyncContext)\<rparr>"

definition allCalls :: "AsyncContext \<Rightarrow> AsyncCall list" where
  "allCalls asyncContext = concat (map (\<lambda>(_, g). AsyncCalls g) (AsyncCallGroups asyncContext))"

definition specifiedGas :: "AsyncContext \<Rightarrow> nat" where
  "specifiedGas asyncContext = sum_list (map ProvidedGas (allCalls asyncContext))"

definition zeroGasCalls :: "AsyncContext \<Rightarrow> nat" where
  "zeroGasCalls asyncContext = length (filter (\<lambda>c. ProvidedGas c = 0) (allCalls asyncContext))"

text \<open>Auxiliary notions for reasoning about the loops: what the first pair of loops does
  to one call, the zero-gas calls and the specified gas of a list of calls, the calls of a
  list of groups, and a map over the calls of all groups.\<close>

definition settled :: "AsyncCall \<Rightarrow> AsyncCall" where
  "settled c = (if ProvidedGas c = 0 then c else c\<lparr>GasLimit := ProvidedGas c\<rparr>)"

definition zerosOf :: "AsyncCall list \<Rightarrow> nat" where
  "zerosOf cs = length (filter (\<lambda>c. ProvidedGas c = 0) cs)"

definition gasOf :: "AsyncCall list \<Rightarrow> nat" where
  "gasOf cs = sum_list (map ProvidedGas cs)"

definition callsOf :: "(string \<times> AsyncCallGroup) list \<Rightarrow> AsyncCall list" where
  "callsOf groups = concat (map (\<lambda>(_, g). AsyncCalls g) groups)"

definition mapCalls ::
  "(AsyncCall \<Rightarrow> AsyncCall) \<Rightarrow> (string \<times> AsyncCallGroup) list \<Rightarrow> (string \<times> AsyncCallGroup) list" where
  "mapCalls f groups = map (\<lambda>(groupID, g). (groupID, g\<lparr>AsyncCalls := map f (AsyncCalls g)\<rparr>)) groups"

subsection \<open>The callback input\<close>

text \<open>The fields of \<open>vmcommon.VMOutput\<close> that the callback input is built from; the return
  code is the number of the enumeration, the return message a Go string, that is, its
  bytes.\<close>

record VMOutput =
  vo_ReturnCode :: nat
  vo_ReturnData :: "bytes list"
  vo_ReturnMessage :: bytes
  vo_GasRemaining :: nat

record ContractCallInput =
  VMInputOf :: VMInput
  RecipientAddr :: bytes
  Function :: string

text \<open>\<open>big.NewInt(n).Bytes()\<close> for \<open>n \<ge> 0\<close>: the big-endian bytes without leading zeros,
  none at all for 0.\<close>

fun bigIntBytes :: "nat \<Rightarrow> bytes" where
  "bigIntBytes n = (if n = 0 then [] else bigIntBytes (n div 256) @ [of_nat (n mod 256)])"

declare bigIntBytes.simps [simp del]

definition computeDataLengthFromArguments :: "string \<Rightarrow> bytes list \<Rightarrow> nat" where
  "computeDataLengthFromArguments function arguments =
     (let numSeparators = length arguments;
          dataLength = length function + numSeparators
      in dataLength + sum_list (map length arguments))"

text \<open>The arguments of the callback: the return code first, then the return data, or the
  return message when the destination call ended with an error.\<close>

definition callbackArguments :: "VMOutput \<Rightarrow> error option \<Rightarrow> bytes list" where
  "callbackArguments destinationVMOutput destinationErr =
     [bigIntBytes (vo_ReturnCode destinationVMOutput)] @
     (if destinationErr = None then vo_ReturnData destinationVMOutput
      else [vo_ReturnMessage destinationVMOutput])"

text \<open>\<open>createCallbackContractCallInput\<close>; \<open>vmInput\<close> and \<open>scAddress\<close> are the input and the
  contract address of the runtime's current frame. The gas to use is computed with Go's
  \<open>+\<close> and \<open>*\<close> on \<open>uint64\<close>, which wrap around.\<close>

definition createCallbackContractCallInput ::
  "config \<Rightarrow> VMInput \<Rightarrow> bytes \<Rightarrow> VMOutput \<Rightarrow> bytes \<Rightarrow> string \<Rightarrow> error option \<Rightarrow>
   error + ContractCallInput" where
  "createCallbackContractCallInput cfg vmInput scAddress destinationVMOutput
       callbackInitiator callbackFunction destinationErr =
     (let arguments = callbackArguments destinationVMOutput destinationErr;
          gasLimit = vo_GasRemaining destinationVMOutput;
          dataLength = computeDataLengthFromArguments callbackFunction arguments;
          gasToUse = (AsyncCallStep cfg +
                      (DataCopyPerByte cfg * dataLength) mod 2 ^ 64) mod 2 ^ 64
      in if gasLimit \<le> gasToUse then Inl ErrNotEnoughGas
         else
           Inr \<lparr>VMInputOf =
                  \<lparr>CallerAddr = callbackInitiator,
                   Arguments = arguments,
                   CallValue = Some 0,
                   CallType = AsynchronousCallBack,
                   GasPrice = GasPrice vmInput,
                   GasProvided = gasLimit - gasToUse,
                   GasLocked = 0,
                   OriginalTxHash = OriginalTxHash vmInput,
                   CurrentTxHash = CurrentTxHash vmInput,
                   PrevTxHash = [],
                   ESDTTransfers = [],
                   ReturnCallAfterError = False\<rparr>,
                 RecipientAddr = scAddress,
                 Function = callbackFunction\<rparr>)"

subsection \<open>The callback that arrives from another shard\<close>

text \<open>The inner loop of \<open>processCallbackStack\<close>: the position of the first call of a
  group whose destination is the caller of the callback.\<close>

fun firstCallTo :: "bytes \<Rightarrow> AsyncCall list \<Rightarrow> nat option" where
  "firstCallTo caller [] = None"
| "firstCallTo caller (asyncCall # rest) =
     (if caller = Destination asyncCall then Some 0
      else map_option Suc (firstCallTo caller rest))"

text \<open>The outer loop, with the two variables it assigns; it stops after the first group
  that leaves a non-empty \<open>currentGroupID\<close>.\<close>

fun findCall ::
  "bytes \<Rightarrow> (string \<times> AsyncCallGroup) list \<Rightarrow> nat \<times> string \<Rightarrow> nat \<times> string" where
  "findCall caller [] (asyncCallPosition, currentGroupID) =
     (asyncCallPosition, currentGroupID)"
| "findCall caller ((groupID, asyncCallGroup) # rest) (asyncCallPosition, currentGroupID) =
     (let (asyncCallPosition', currentGroupID') =
            (case firstCallTo caller (AsyncCalls asyncCallGroup) of
               Some position \<Rightarrow> (position, groupID)
             | None \<Rightarrow> (asyncCallPosition, currentGroupID))
      in if length currentGroupID' > 0 then (asyncCallPosition', currentGroupID')
         else findCall caller rest (asyncCallPosition', currentGroupID'))"

text \<open>\<open>savePendingAsyncCalls\<close>. \<open>json.Marshal\<close> and the key built by
  \<open>arwen.CustomStorageKey(arwen.AsyncDataPrefix, \<cdot>)\<close> from the original transaction hash are
  parameters: their code is not among the sources.\<close>

definition savePendingAsyncCalls ::
  "config \<Rightarrow> (AsyncContext \<Rightarrow> error + bytes) \<Rightarrow> (bytes \<Rightarrow> bytes) \<Rightarrow> VMInput \<Rightarrow>
   AsyncContext \<Rightarrow> host \<Rightarrow> error option \<times> host" where
  "savePendingAsyncCalls cfg marshal asyncKey vmInput pendingAsyncMap h =
     (if length (AsyncCallGroups pendingAsyncMap) = 0 then (None, h)
      else
        let asyncCallStorageKey = asyncKey (OriginalTxHash vmInput) in
        case marshal pendingAsyncMap of
          Inl err \<Rightarrow> (Some err, h)
        | Inr data \<Rightarrow>
            (case SetStorage cfg asyncCallStorageKey data h of
               ((_, Some err), h1) \<Rightarrow> (Some err, h1)
             | ((_, None), h1) \<Rightarrow> (None, h1)))"

text \<open>\<open>processCallbackStack\<close>, up to the point where the persisted entry has been cleared;
  what follows (sending the callback to the original caller or executing it here) is the
  parameter \<open>resolve\<close>. \<open>json.Unmarshal\<close> is a parameter too. The call is removed from the
  local slice \<open>currentContextCalls\<close> by moving the last call to its position and dropping
  the last.\<close>

definition processCallbackStack ::
  "config \<Rightarrow> (bytes \<Rightarrow> AsyncContext option) \<Rightarrow> (bytes \<Rightarrow> bytes) \<Rightarrow>
   (AsyncContext \<Rightarrow> host \<Rightarrow> error option \<times> host) \<Rightarrow> VMInput \<Rightarrow> host \<Rightarrow> error option \<times> host" where
  "processCallbackStack cfg unmarshal asyncKey resolve vmInput h =
     (let storageKey = asyncKey (OriginalTxHash vmInput) in
      case GetStorage cfg storageKey h of
        ((buff, _), h1) \<Rightarrow>
          (case unmarshal buff of
             None \<Rightarrow> (Some ErrUnmarshal, h1)
           | Some asyncContext \<Rightarrow>
               let (asyncCallPosition, currentGroupID) =
                     findCall (CallerAddr vmInput) (AsyncCallGroups asyncContext) (0, [])
               in if length currentGroupID = 0 then (Some ErrCallBackFuncNotExpected, h1)
                  else
                    let calls = (case map_of (AsyncCallGroups asyncContext) currentGroupID of
                                   Some g \<Rightarrow> AsyncCalls g | None \<Rightarrow> []);
                        currentContextCalls = butlast (calls[asyncCallPosition := last calls]);
                        groups = (if length currentContextCalls = 0
                                  then filter (\<lambda>(groupID, _). groupID \<noteq> currentGroupID)
                                         (AsyncCallGroups asyncContext)
                                  else AsyncCallGroups asyncContext)
                    in if length groups > 0 then (None, h1)
                       else
                         (case SetStorage cfg storageKey [] h1 of
                            ((_, Some err), h2) \<Rightarrow> (Some err, h2)
                          | ((_, None), h2) \<Rightarrow>
                              resolve (asyncContext\<lparr>AsyncCallGroups := groups\<rparr>) h2)))"

subsection \<open>Concrete async data\<close>

definition callWithGas :: "bytes \<Rightarrow> nat \<Rightarrow> AsyncCall" where
  "callWithGas dest gas =
     \<lparr>Status = AsyncCallPending, Destination = dest, CallData = [], GasLimit = 7,
      ProvidedGas = gas, ValueBytes = [], SuccessCallback = ''ok'', ErrorCallback = ''err''\<rparr>"

text \<open>A context of the contract 1 with one group, and in it one call to the contract 2 for
  each amount of gas.\<close>

definition contextOf :: "nat list \<Rightarrow> AsyncContext" where
  "contextOf gas =
     \<lparr>ctx_CallerAddr = [1], ctx_ReturnData = [],
      AsyncCallGroups = [(''g'', \<lparr>Callback = ''cb'', AsyncCalls = map (callWithGas [2]) gas\<rparr>)]\<rparr>"

text \<open>The output of a destination call that returned code 0 and no data, with 100 gas
  remaining, and the input of the frame that made the call.\<close>

definition okOutput :: VMOutput where
  "okOutput = \<lparr>vo_ReturnCode = 0, vo_ReturnData = [], vo_ReturnMessage = [], vo_GasRemaining = 100\<rparr>"

definition frameInput :: VMInput where
  "frameInput =
     \<lparr>CallerAddr = [2], Arguments = [], CallValue = Some 0, CallType = AsynchronousCallBack,
      GasPrice = 1, GasProvided = 500, GasLocked = 0, OriginalTxHash = [9], CurrentTxHash = [8],
      PrevTxHash = [], ESDTTransfers = [], ReturnCallAfterError = False\<rparr>"

text \<open>A persisted context with two pending calls in one group, to the contracts 2 and 3; a
  decoder that reads the bytes 5, 5 (what the hook of \<open>exampleHost\<close> holds under every key)
  as that context; an encoder that writes a context as its number of groups; and the key of
  the async data for a transaction hash.\<close>

definition twoCallContext :: AsyncContext where
  "twoCallContext =
     \<lparr>ctx_CallerAddr = [1], ctx_ReturnData = [],
      AsyncCallGroups =
        [(''g'', \<lparr>Callback = ''cb'', AsyncCalls = [callWithGas [2] 0, callWithGas [3] 0]\<rparr>)]\<rparr>"

definition exampleUnmarshal :: "bytes \<Rightarrow> AsyncContext option" where
  "exampleUnmarshal buff = (if buff = [5, 5] then Some twoCallContext else None)"

definition exampleMarshal :: "AsyncContext \<Rightarrow> error + bytes" where
  "exampleMarshal asyncContext = Inr [of_nat (length (AsyncCallGroups asyncContext))]"

definition exampleAsyncKey :: "bytes \<Rightarrow> bytes" where
  "exampleAsyncKey txHash = 75 # txHash"

section \<open>Memory access of the runtime context (src/unnamed/part_005)\<close>

definition MaxInt32 :: int where
  "MaxInt32 = 2 ^ 31 - 1"

definition MinInt32 :: int where
  "MinInt32 = - (2 ^ 31)"

text \<open>Modelled from the spec: \<open>math.AddInt32\<close> is not among the sources; arithmetic
  "saturates or explicitly fails on overflow", and this addition has no error result, so it
  saturates.\<close>

definition AddInt32 :: "32 word \<Rightarrow> 32 word \<Rightarrow> 32 word" where
  "AddInt32 a b =
     (let s = sint a + sint b in
      if s > MaxInt32 then word_of_int MaxInt32
      else if s < MinInt32 then word_of_int MinInt32
      else a + b)"

text \<open>Go's builtin \<open>copy(dst, src)\<close>, returning the destination: the first
  \<open>min(len(dst), len(src))\<close> bytes are overwritten.\<close>

definition copy :: "bytes \<Rightarrow> bytes \<Rightarrow> bytes" where
  "copy dst src = take (length dst) src @ drop (length src) dst"

text \<open>\<open>MemLoad\<close> on an instance whose linear memory holds \<open>memoryView\<close>. The offset and the
  length are \<open>int32\<close>: \<open>sint\<close> reads them as signed, \<open>unat\<close> is the conversion
  \<open>uint32(...)\<close>. \<open>memory.Length()\<close> is the \<open>uint32\<close> length of \<open>memory.Data()\<close>, so the
  memory is shorter than \<open>2 ^ 32\<close> bytes and its length is compared as a number.\<close>

definition MemLoad :: "bytes \<Rightarrow> 32 word \<Rightarrow> 32 word \<Rightarrow> error + bytes" where
  "MemLoad memoryView offset len =
     (if len = 0 then Inr []
      else
        let memoryLength = length memoryView;
            requestedEnd = AddInt32 offset len;
            isOffsetTooSmall = sint offset < 0;
            isOffsetTooLarge = unat offset > memoryLength;
            isRequestedEndTooLarge = unat requestedEnd > memoryLength;
            isLengthNegative = sint len < 0
        in if isOffsetTooSmall \<or> isOffsetTooLarge then Inl ErrBadBounds
           else if isLengthNegative then Inl ErrNegativeLength
           else
             let result = replicate (nat (sint len)) 0 in
             if isRequestedEndTooLarge
             then Inr (copy result (drop (unat offset) memoryView))
             else Inr (copy result
                         (take (unat requestedEnd - unat offset)
                            (drop (unat offset) memoryView))))"

section \<open>Popping an empty state stack\<close>

text \<open>In the storage, blockchain and runtime contexts, \<open>PopSetActiveState\<close> and
  \<open>PopDiscard\<close> on an empty state stack return the context as it was: the current address,
  the current frame and the current instance (and everything else) are unchanged, whatever
  the instance stack holds. The metering, output, managed-types and async contexts declare
  the same operations, but their code is not among the sources.\<close>

lemma pop_on_empty_stack_is_noop:
  "(sc_stateStack s = [] \<longrightarrow> sc_PopSetActiveState s = s \<and> sc_PopDiscard s = s) \<and>
   (bc_stateStack b = [] \<longrightarrow> bc_PopSetActiveState b = b \<and> bc_PopDiscard b = b) \<and>
   (rt_stateStack r = [] \<longrightarrow> rt_PopSetActiveState r = r \<and> rt_PopDiscard r = r)"
  by (simp add: sc_PopSetActiveState_def sc_PopDiscard_def bc_PopSetActiveState_def
      bc_PopDiscard_def rt_PopSetActiveState_def rt_PopDiscard_def)

lemma pop_on_empty_stack_is_noop_witness:
  "sc_stateStack \<lparr>sc_address = [1], sc_stateStack = [], elrondProtectedKeyPrefix = [69],
      arwenStorageProtectionEnabled = True,
      flagUseDifferentGasCostForReadingCachedStorage = True\<rparr> = [] \<and>
   sc_address (sc_PopSetActiveState \<lparr>sc_address = [1], sc_stateStack = [],
      elrondProtectedKeyPrefix = [69], arwenStorageProtectionEnabled = True,
      flagUseDifferentGasCostForReadingCachedStorage = True\<rparr>) = [1] \<and>
   bc_stateStack \<lparr>bc_stateStack = [], hookSnapshot = 7\<rparr> = [] \<and>
   hookSnapshot (bc_PopSetActiveState \<lparr>bc_stateStack = [], hookSnapshot = 7\<rparr>) = 7 \<and>
   rt_stateStack \<lparr>rt_instance = Some 2, rt_vmInput = None, rt_scAddress = [1],
      rt_callFunction = ''f'', rt_readOnly = False, rt_stateStack = [],
      rt_instanceStack = [Some 1], cleaned = []\<rparr> = [] \<and>
   rt_instance (rt_PopDiscard \<lparr>rt_instance = Some 2, rt_vmInput = None, rt_scAddress = [1],
      rt_callFunction = ''f'', rt_readOnly = False, rt_stateStack = [],
      rt_instanceStack = [Some 1], cleaned = []\<rparr>) = Some 2"
  using pop_on_empty_stack_is_noop
    [of "\<lparr>sc_address = [1], sc_stateStack = [], elrondProtectedKeyPrefix = [69],
          arwenStorageProtectionEnabled = True,
          flagUseDifferentGasCostForReadingCachedStorage = True\<rparr>"
        "\<lparr>bc_stateStack = [], hookSnapshot = 7\<rparr>"
        "\<lparr>rt_instance = Some 2, rt_vmInput = None, rt_scAddress = [1],
          rt_callFunction = ''f'', rt_readOnly = False, rt_stateStack = [],
          rt_instanceStack = [Some 1], cleaned = []\<rparr>"]
  by simp

section \<open>Storage reads and writes\<close>

lemma storage_UseGas [simp]: "storage (UseGas n h) = storage h"
  by (simp add: UseGas_def)

lemma storageUpdates_UseGas [simp]: "storageUpdates (UseGas n h) = storageUpdates h"
  by (simp add: UseGas_def)

lemma gasRefund_UseGas [simp]: "gasRefund (UseGas n h) = gasRefund h"
  by (simp add: UseGas_def)

lemma take_one_of_long_key: "take (Suc 0) (replicate 33 (7::8 word)) = [7]"
  by (simp add: eval_nat_numeral)

lemmas example_states =
  exampleConfig_def exampleStorageContext_def exampleHost_def cachedHost_def

lemmas storage_read_defs =
  GetStorage_def GetStorageUnmetered_def getStorageFromAddressUnmetered_def
  GetStorageUpdates_def putStorageUpdate_def useGasForValueIfNeeded_def
  useExtraGasForKeyIfNeeded_def isElrondReservedKey_def isArwenProtectedKey_def HasPrefix_def

lemmas storage_write_defs =
  SetStorage_def setStorageToAddress_def getOldValue_def UseGasBounded_def GasLeft_def
  computeGasForKey_def changeStorageUpdate_def storageDeleted_def FreeGas_def

text \<open>C2, as stated, fails: before the epoch that sets the different-gas-cost flag, a read
  of a reserved key that is in the cache of the output account returns the cached bytes
  (9) and reports a cache hit, although the hook holds 5, 5 under that key.\<close>

theorem reserved_read_served_from_cache_counterexample:
  "isElrondReservedKey cachedHost [69, 1] \<and>
   hookStorage cachedHost (sc_address (storage cachedHost)) [69, 1] = [5, 5] \<and>
   fst (GetStorage exampleConfig [69, 1] cachedHost) = ([9], True)"
  by (simp add: example_states storage_read_defs)

text \<open>C2, amended. For every storage read of a key that begins with the reserved prefix:
  when the different-gas-cost flag is set and the key does not also begin with the
  protected prefix, the read returns what the hook holds for the current address, reports
  no cache hit, and neither consults nor changes the storage updates of any account; in
  every other case the read goes through the cache like any other key: an entry of the
  current account's storage updates is returned as a cache hit and nothing is changed, and
  without one the hook's value is returned, with no cache hit, and stored there with
  \<open>Written = False\<close>.\<close>

theorem reserved_read_bypasses_cache:
  fixes h :: host and key :: bytes
  defines "addr \<equiv> sc_address (storage h)"
  defines "flag \<equiv> flagUseDifferentGasCostForReadingCachedStorage (storage h)"
  assumes "isElrondReservedKey h key"
  shows "(flag \<and> \<not> isArwenProtectedKey cfg key \<longrightarrow>
            fst (GetStorage cfg key h) = (hookStorage h addr key, False) \<and>
            storageUpdates (snd (GetStorage cfg key h)) = storageUpdates h) \<and>
         (\<not> flag \<or> isArwenProtectedKey cfg key \<longrightarrow>
            (case storageUpdates h addr key of
               Some u \<Rightarrow>
                 fst (GetStorage cfg key h) = (Data u, True) \<and>
                 storageUpdates (snd (GetStorage cfg key h)) = storageUpdates h
             | None \<Rightarrow>
                 fst (GetStorage cfg key h) = (hookStorage h addr key, False) \<and>
                 storageUpdates (snd (GetStorage cfg key h)) =
                   (storageUpdates h)
                     (addr := (storageUpdates h addr)
                        (key \<mapsto> \<lparr>Offset = key, Data = hookStorage h addr key,
                                 Written = False\<rparr>))))"
  using assms
  by (auto simp: GetStorage_def GetStorageUnmetered_def getStorageFromAddressUnmetered_def
      GetStorageUpdates_def putStorageUpdate_def useGasForValueIfNeeded_def
      useExtraGasForKeyIfNeeded_def Let_def split: option.splits)

theorem reserved_read_bypasses_cache_witness:
  "isElrondReservedKey (cachedHost\<lparr>storage := exampleStorageContext\<rparr>) [69, 1] \<and>
   \<not> isArwenProtectedKey exampleConfig [69, 1] \<and>
   flagUseDifferentGasCostForReadingCachedStorage
     (storage (cachedHost\<lparr>storage := exampleStorageContext\<rparr>)) \<and>
   fst (GetStorage exampleConfig [69, 1] (cachedHost\<lparr>storage := exampleStorageContext\<rparr>)) =
     ([5, 5], False) \<and>
   isElrondReservedKey cachedHost [69, 1] \<and> isElrondReservedKey cachedHost [69, 2] \<and>
   \<not> flagUseDifferentGasCostForReadingCachedStorage (storage cachedHost) \<and>
   storageUpdates cachedHost [1] [69, 1] =
     Some \<lparr>Offset = [69, 1], Data = [9], Written = False\<rparr> \<and>
   fst (GetStorage exampleConfig [69, 1] cachedHost) = ([9], True) \<and>
   storageUpdates cachedHost [1] [69, 2] = None \<and>
   fst (GetStorage exampleConfig [69, 2] cachedHost) = ([5, 5], False) \<and>
   storageUpdates (snd (GetStorage exampleConfig [69, 2] cachedHost)) [1] [69, 2] =
     Some \<lparr>Offset = [69, 2], Data = [5, 5], Written = False\<rparr>"
proof -
  have r1: "isElrondReservedKey (cachedHost\<lparr>storage := exampleStorageContext\<rparr>) [69, 1]"
    and r2: "isElrondReservedKey cachedHost [69, 1]"
    and r3: "isElrondReservedKey cachedHost [69, 2]"
    by (simp_all add: example_states isElrondReservedKey_def HasPrefix_def)
  show ?thesis
    using r1 r2 r3
      reserved_read_bypasses_cache [OF r1, of exampleConfig]
      reserved_read_bypasses_cache [OF r2, of exampleConfig]
      reserved_read_bypasses_cache [OF r3, of exampleConfig]
    by (simp add: example_states isArwenProtectedKey_def HasPrefix_def)
qed

text \<open>C6. While the runtime's read-only flag is set, a storage write (to the current
  address or to any other) returns status Unchanged with no error and leaves the whole host
  state as it was: no storage update is added or changed, so none gets
  \<open>Written = True\<close>.\<close>

theorem readOnly_write_is_silently_dropped:
  "readOnly h \<Longrightarrow>
     setStorageToAddress cfg address key v h = ((StorageUnchanged, None), h) \<and>
     SetStorage cfg key v h = ((StorageUnchanged, None), h)"
  by (simp add: SetStorage_def setStorageToAddress_def)

theorem readOnly_write_is_silently_dropped_witness:
  "readOnly (exampleHost\<lparr>readOnly := True\<rparr>) \<and>
   fst (SetStorage exampleConfig [7] [8, 8, 8] (exampleHost\<lparr>readOnly := True\<rparr>)) =
     (StorageUnchanged, None) \<and>
   storageUpdates (snd (SetStorage exampleConfig [7] [8, 8, 8] (exampleHost\<lparr>readOnly := True\<rparr>)))
     = storageUpdates (exampleHost\<lparr>readOnly := True\<rparr>)"
  using readOnly_write_is_silently_dropped
    [of "exampleHost\<lparr>readOnly := True\<rparr>" exampleConfig "[1]" "[7]" "[8, 8, 8]"]
  by simp

text \<open>C5, as stated, fails on two writes of the empty value to a key that is neither
  reserved nor protected and holds 5, 5: in read-only mode the write is dropped with status
  Unchanged, and with no gas left for the 33-byte key it fails with not-enough-gas, status
  Unchanged, and no refund.\<close>

theorem delete_not_always_Deleted_counterexample:
  "\<not> isElrondReservedKey exampleHost [7] \<and> \<not> isArwenProtectedKey exampleConfig [7] \<and>
   hookStorage exampleHost (sc_address (storage exampleHost)) [7] = [5, 5] \<and>
   fst (SetStorage exampleConfig [7] [] (exampleHost\<lparr>readOnly := True\<rparr>)) =
     (StorageUnchanged, None) \<and>
   \<not> isElrondReservedKey exampleHost (replicate 33 7) \<and>
   \<not> isArwenProtectedKey exampleConfig (replicate 33 7) \<and>
   hookStorage exampleHost (sc_address (storage exampleHost)) (replicate 33 7) = [5, 5] \<and>
   fst (SetStorage exampleConfig (replicate 33 7) [] (exampleHost\<lparr>gasForExecution := 0\<rparr>)) =
     (StorageUnchanged, Some ErrNotEnoughGas) \<and>
   gasRefund (snd (SetStorage exampleConfig (replicate 33 7) []
     (exampleHost\<lparr>gasForExecution := 0\<rparr>))) = 0"
  by (simp add: example_states storage_write_defs storage_read_defs MulUint64_def
      MaxUint64_def take_one_of_long_key Let_def)

text \<open>C5, amended. Outside read-only mode, and with enough gas left for the charge on the
  key, writing the empty value to a key of the current account that is neither reserved nor
  protected and whose old value (the cached one, else the hook's) is non-empty gives status
  Deleted with no error, adds release-per-byte times the old length to the refund counter
  (in saturating 64-bit arithmetic), and leaves for the key an update with empty data and
  \<open>Written = True\<close>.\<close>

theorem delete_refunds_and_marks_written:
  fixes h :: host and key :: bytes
  defines "addr \<equiv> sc_address (storage h)"
  defines "old \<equiv> (case storageUpdates h addr key of
                     Some u \<Rightarrow> Data u | None \<Rightarrow> hookStorage h addr key)"
  assumes "\<not> readOnly h"
    and "\<not> isElrondReservedKey h key"
    and "\<not> isArwenProtectedKey cfg key"
    and "old \<noteq> []"
    and "computeGasForKey cfg key (storageUpdates h addr key \<noteq> None) h \<le> GasLeft h"
  shows "fst (SetStorage cfg key [] h) = (StorageDeleted, None) \<and>
         gasRefund (snd (SetStorage cfg key [] h)) =
           AddUint64 (gasRefund h) (MulUint64 (ReleasePerByte cfg) (length old)) \<and>
         storageUpdates (snd (SetStorage cfg key [] h)) addr key =
           Some \<lparr>Offset = key, Data = [], Written = True\<rparr>"
proof (cases "storageUpdates h (sc_address (storage h)) key")
  case None
  with assms show ?thesis
    by (simp add: storage_write_defs GetStorageUnmetered_def
        getStorageFromAddressUnmetered_def GetStorageUpdates_def putStorageUpdate_def
        isElrondReservedKey_def Let_def)
next
  case (Some u)
  with assms show ?thesis
    by (simp add: storage_write_defs GetStorageUpdates_def putStorageUpdate_def Let_def)
qed

theorem delete_refunds_and_marks_written_witness:
  "\<not> readOnly exampleHost \<and> \<not> isElrondReservedKey exampleHost [7] \<and>
   \<not> isArwenProtectedKey exampleConfig [7] \<and>
   hookStorage exampleHost [1] [7] \<noteq> [] \<and>
   computeGasForKey exampleConfig [7] False exampleHost \<le> GasLeft exampleHost \<and>
   fst (SetStorage exampleConfig [7] [] exampleHost) = (StorageDeleted, None) \<and>
   gasRefund (snd (SetStorage exampleConfig [7] [] exampleHost)) = 22 \<and>
   storageUpdates (snd (SetStorage exampleConfig [7] [] exampleHost)) [1] [7] =
     Some \<lparr>Offset = [7], Data = [], Written = True\<rparr>"
  using delete_refunds_and_marks_written [of exampleHost "[7]" exampleConfig]
  by (simp add: example_states isElrondReservedKey_def isArwenProtectedKey_def HasPrefix_def
      computeGasForKey_def GasLeft_def MulUint64_def AddUint64_def MaxUint64_def)

section \<open>Loading from the linear memory\<close>

lemma sint_nonneg_eq_uint: "0 \<le> sint (x::32 word) \<Longrightarrow> sint x = uint x"
proof (cases "uint x < 2 ^ 31")
  case True
  have "(- (2 ^ 31) :: int) \<le> 0" by simp
  also have "0 \<le> uint x" by simp
  finally have "signed_take_bit 31 (uint x) = uint x"
    using True by (rule signed_take_bit_int_eq_self)
  then show ?thesis
    by (simp add: sint_uint)
next
  case False
  assume nn: "0 \<le> sint x"
  have "uint x < 2 ^ 32" using uint_lt2p [of x] by simp
  moreover have "sint x \<le> uint x - 2 ^ 32"
    using False signed_take_bit_int_less_eq [of 31 "uint x"] by (simp add: sint_uint)
  ultimately show ?thesis using nn by linarith
qed

lemma unat_of_nonneg: "0 \<le> sint (x::32 word) \<Longrightarrow> int (unat x) = sint x"
  by (simp add: sint_nonneg_eq_uint)

lemma unat_AddInt32:
  assumes "0 \<le> sint a" "0 < sint b"
  shows "unat (AddInt32 a b) = min (unat a + unat b) (2 ^ 31 - 1)"
proof -
  have ua: "int (unat a) = sint a" and ub: "int (unat b) = sint b"
    using assms unat_of_nonneg [of a] unat_of_nonneg [of b] by linarith+
  have sum: "int (unat a + unat b) = sint a + sint b"
    using ua ub by (simp only: of_nat_add)
  show ?thesis
  proof (cases "sint a + sint b > MaxInt32")
    case True
    then have "AddInt32 a b = word_of_int MaxInt32" by (simp add: AddInt32_def)
    moreover have "unat (word_of_int MaxInt32 :: 32 word) = 2 ^ 31 - 1"
      by (simp add: MaxInt32_def)
    moreover have "unat a + unat b > 2 ^ 31 - 1"
    proof -
      have "(2147483647::int) < int (unat a + unat b)"
        using True unfolding sum MaxInt32_def by simp
      then have "2147483647 < unat a + unat b" by linarith
      then show ?thesis by simp
    qed
    ultimately show ?thesis by simp
  next
    case False
    then have eq: "AddInt32 a b = a + b"
      using assms by (simp add: AddInt32_def MinInt32_def)
    have "signed_take_bit 31 (sint a + sint b) = sint a + sint b"
      using False assms unfolding MaxInt32_def
      by (intro signed_take_bit_int_eq_self) simp_all
    then have s: "sint (a + b) = sint a + sint b"
      by (simp add: sint_word_ariths)
    have "int (unat (a + b)) = sint (a + b)"
      using s assms by (intro unat_of_nonneg) simp
    then have "int (unat (a + b)) = int (unat a + unat b)"
      unfolding sum s .
    then have "unat (a + b) = unat a + unat b"
      by (simp only: of_nat_eq_iff)
    moreover have "unat a + unat b \<le> 2 ^ 31 - 1"
    proof -
      have "int (unat a + unat b) \<le> (2147483647::int)"
        using False unfolding sum MaxInt32_def by simp
      then have "unat a + unat b \<le> 2147483647" by linarith
      then show ?thesis by simp
    qed
    ultimately show ?thesis using eq by simp
  qed
qed

lemma copy_short:
  "length src \<le> n \<Longrightarrow> copy (replicate n 0) src = src @ replicate (n - length src) 0"
  by (simp add: copy_def)

lemma MemLoad_in_bounds:
  assumes "0 \<le> sint off" "unat off \<le> length m" "0 < sint len"
  shows "MemLoad m off len =
     (if unat (AddInt32 off len) > length m
      then Inr (copy (replicate (unat len) 0) (drop (unat off) m))
      else Inr (copy (replicate (unat len) 0)
                  (take (unat (AddInt32 off len) - unat off) (drop (unat off) m))))"
proof -
  have l: "nat (sint len) = unat len" using assms(3) unat_of_nonneg [of len] by linarith
  have ne: "len \<noteq> 0" using assms(3) by auto
  have basic: "\<not> sint off < 0" "\<not> unat off > length m" "\<not> sint len < 0"
    using assms by simp_all
  show ?thesis
    unfolding MemLoad_def Let_def l using ne basic by simp
qed

lemma MemLoad_zero_padded:
  assumes "0 \<le> sint off" "unat off \<le> length m" "0 < sint len"
    "unat off + unat len > length m" "length m < 2 ^ 31"
  shows "MemLoad m off len = Inr (drop (unat off) m @ replicate (unat off + unat len - length m) 0)"
proof -
  have e: "unat (AddInt32 off len) = min (unat off + unat len) (2 ^ 31 - 1)"
    using assms(1,3) by (rule unat_AddInt32)
  have ar: "unat len - (length m - unat off) = unat off + unat len - length m"
    using assms(2) by linarith
  have sh: "length (drop (unat off) m) \<le> unat len"
    using assms(4) by simp
  have c: "copy (replicate (unat len) 0) (drop (unat off) m) =
      drop (unat off) m @ replicate (unat off + unat len - length m) 0"
    using copy_short [OF sh] ar by simp
  show ?thesis
  proof (cases "unat (AddInt32 off len) > length m")
    case True
    then show ?thesis
      using MemLoad_in_bounds [OF assms(1,2,3)] c by simp
  next
    case False
    have "unat (AddInt32 off len) \<ge> length m"
      unfolding e using assms(4,5) by simp
    with False have "unat (AddInt32 off len) = length m" by simp
    then have "take (unat (AddInt32 off len) - unat off) (drop (unat off) m) = drop (unat off) m"
      by simp
    then show ?thesis
      using False MemLoad_in_bounds [OF assms(1,2,3)] c by simp
  qed
qed


text \<open>C7, as stated, fails: the length is tested first, so a load of length 0 at the
  negative offset -1 succeeds with the empty byte string.\<close>

theorem MemLoad_negative_offset_counterexample:
  "sint (- 1 :: 32 word) < 0 \<and> MemLoad [1, 2, 3] (- 1) 0 = Inr []"
  by (simp add: MemLoad_def)

text \<open>C7, amended. \<open>MemLoad\<close> fails for every negative length and for every negative offset
  with a non-zero length; it returns the empty byte string for length 0 whatever the memory
  and the offset; and on a memory shorter than \<open>2 ^ 31\<close> bytes, when the offset is within
  the memory but offset + length exceeds the memory length, it succeeds with the bytes from
  the offset to the end of the memory followed by zeros, exactly length bytes in all.\<close>

theorem MemLoad_bounds_and_padding:
  "(sint len < 0 \<longrightarrow> MemLoad m off len \<in> {Inl ErrBadBounds, Inl ErrNegativeLength}) \<and>
   (sint off < 0 \<and> len \<noteq> 0 \<longrightarrow> MemLoad m off len = Inl ErrBadBounds) \<and>
   MemLoad m off 0 = Inr [] \<and>
   (0 \<le> sint off \<and> unat off \<le> length m \<and> 0 < sint len \<and>
    length m < unat off + unat len \<and> length m < 2 ^ 31 \<longrightarrow>
      MemLoad m off len =
        Inr (drop (unat off) m @ replicate (unat off + unat len - length m) 0) \<and>
      length (drop (unat off) m @ replicate (unat off + unat len - length m) 0) = unat len)"
proof (intro conjI impI)
  assume "sint len < 0"
  then show "MemLoad m off len \<in> {Inl ErrBadBounds, Inl ErrNegativeLength}"
    by (auto simp: MemLoad_def Let_def)
next
  assume "sint off < 0 \<and> len \<noteq> 0"
  then show "MemLoad m off len = Inl ErrBadBounds"
    by (simp add: MemLoad_def Let_def)
next
  show "MemLoad m off 0 = Inr []"
    by (simp add: MemLoad_def)
next
  assume h: "0 \<le> sint off \<and> unat off \<le> length m \<and> 0 < sint len \<and>
    length m < unat off + unat len \<and> length m < 2 ^ 31"
  then show "MemLoad m off len =
        Inr (drop (unat off) m @ replicate (unat off + unat len - length m) 0)"
    by (intro MemLoad_zero_padded) simp_all
  from h show "length (drop (unat off) m @ replicate (unat off + unat len - length m) 0) =
      unat len"
    by simp
qed

theorem MemLoad_bounds_and_padding_witness:
  "sint (- 2 :: 32 word) < 0 \<and> MemLoad [1, 2, 3] 1 (- 2) = Inl ErrNegativeLength \<and>
   sint (- 1 :: 32 word) < 0 \<and> (5 :: 32 word) \<noteq> 0 \<and>
   MemLoad [1, 2, 3] (- 1) 5 = Inl ErrBadBounds \<and>
   0 \<le> sint (1 :: 32 word) \<and> unat (1 :: 32 word) \<le> length [1, 2, 3 :: 8 word] \<and>
   0 < sint (5 :: 32 word) \<and>
   length [1, 2, 3 :: 8 word] < unat (1 :: 32 word) + unat (5 :: 32 word) \<and>
   MemLoad [1, 2, 3] 1 5 = Inr [2, 3, 0, 0, 0]"
  using MemLoad_bounds_and_padding [of "- 2" "[1, 2, 3]" 1]
    MemLoad_bounds_and_padding [of 5 "[1, 2, 3]" "- 1"]
    MemLoad_bounds_and_padding [of 5 "[1, 2, 3]" 1]
  by (simp add: MemLoad_def Let_def numeral_3_eq_3)

section \<open>Big-integer division and power\<close>

lemma bigIntValues_UseGas [simp]: "bigIntValues (UseGas n h) = bigIntValues h"
  by (simp add: UseGas_def)

lemma allErrors_UseGas [simp]: "allErrors (UseGas n h) = allErrors h"
  by (simp add: UseGas_def)

lemma floor_of_eighth: "8 * (x div 8) \<le> x \<and> x < 8 * (x div 8) + 8" for x :: int
  by presburger

lemma BitLen_6: "BitLen 6 = 3"
  by (simp add: BitLen_def bitLenNat.simps)

lemmas bigInt_defs =
  GetBigIntOrCreate_def GetTwoBigInt_def ConsumeGasForBigIntCopy_def
  ConsumeGasForThisBigIntNumberOfBytes_def WithFault_def FailExecution_def AddError_def
  BigIntAPIErrorShouldFailExecution_def setBigInt_def

lemmas div_defs = BigIntTDiv_def BigIntTMod_def BigIntEDiv_def BigIntEMod_def

text \<open>C8, as stated, fails: for base 6 (3 bits) and exponent 6 the length that
  \<open>BigIntPow\<close> charges for is 2 bytes, the quotient of 18 by 8 rounded down, where the
  ceiling is 3; with a per-byte cost of 3 and an operation cost of 10 the call uses
  10 + 3 * 2 + 3 * (1 + 1) = 22 gas.\<close>

theorem BigIntPow_length_counterexample:
  "bigIntValues exampleHost 1 = Some 6 \<and>
   lengthOfResult 6 6 = 2 \<and> ceil_lengthOfResult 6 6 = 3 \<and>
   pointsUsed (BigIntPow exampleConfig 3 1 1 exampleHost) = 22"
  by (simp add: example_states BigIntPow_def bigInt_defs Let_def lengthOfResult_def
      ceil_lengthOfResult_def EDiv_def BitLen_6 byteLength_def UseGas_def MulUint64_def
      MaxUint64_def MaxInt64_def)

text \<open>C8, amended. For every \<open>BigIntPow\<close> whose operand handles hold base \<open>a\<close> and a
  non-negative exponent \<open>b\<close>, the gas used after the call is the gas used before plus the
  cost of the operation, plus the per-byte cost times the expected result length, plus the
  per-byte cost of copying the operands (all in saturating arithmetic); and the expected
  result length is bits(a) times b divided by 8 and rounded down, not up.\<close>

theorem BigIntPow_charges_floor_of_length:
  assumes "bigIntValues h op1 = Some a" and "bigIntValues h op2 = Some b" and "0 \<le> b"
  shows "pointsUsed (BigIntPow cfg dest op1 op2 h) =
           min (pointsUsed h + BigIntPowCost cfg +
                MulUint64 (DataCopyPerByte cfg) (nat (lengthOfResult a b)) +
                MulUint64 (DataCopyPerByte cfg) (byteLength a + byteLength b)) MaxInt64 \<and>
         0 \<le> lengthOfResult a b \<and>
         8 * lengthOfResult a b \<le> b * int (BitLen a) \<and>
         b * int (BitLen a) < 8 * lengthOfResult a b + 8"
proof -
  have ops: "GetTwoBigInt op1 op2 (snd (GetBigIntOrCreate dest (UseGas (BigIntPowCost cfg) h)))
      = Inr (a, b)"
    using assms(1,2)
    by (auto simp: GetBigIntOrCreate_def GetTwoBigInt_def split: option.splits)
  have gas: "pointsUsed (snd (GetBigIntOrCreate dest g)) = pointsUsed g" for g
    by (simp add: GetBigIntOrCreate_def split: option.splits)
  have "0 \<le> b * int (BitLen a)"
    using assms(3) by simp
  then have nonneg: "0 \<le> lengthOfResult a b"
    by (simp add: lengthOfResult_def EDiv_def pos_imp_zdiv_nonneg_iff)
  have "pointsUsed (BigIntPow cfg dest op1 op2 h) =
      pointsUsed (UseGas (MulUint64 (DataCopyPerByte cfg) (byteLength a + byteLength b))
        (UseGas (MulUint64 (DataCopyPerByte cfg) (nat (lengthOfResult a b)))
          (snd (GetBigIntOrCreate dest (UseGas (BigIntPowCost cfg) h)))))"
    using ops nonneg
    by (simp add: BigIntPow_def Let_def split_beta ConsumeGasForBigIntCopy_def
        ConsumeGasForThisBigIntNumberOfBytes_def WithFault_def FailExecution_def AddError_def
        BigIntAPIErrorShouldFailExecution_def setBigInt_def UseGas_def)
  also have "\<dots> = min (pointsUsed h + BigIntPowCost cfg +
                MulUint64 (DataCopyPerByte cfg) (nat (lengthOfResult a b)) +
                MulUint64 (DataCopyPerByte cfg) (byteLength a + byteLength b)) MaxInt64"
    by (simp add: UseGas_def gas min_def)
  finally show ?thesis
    using floor_of_eighth [of "b * int (BitLen a)"] nonneg
    by (simp add: lengthOfResult_def EDiv_def)
qed

theorem BigIntPow_charges_floor_of_length_witness:
  "bigIntValues exampleHost 1 = Some 6 \<and> (0 :: int) \<le> 6 \<and>
   pointsUsed (BigIntPow exampleConfig 3 1 1 exampleHost) =
     min (pointsUsed exampleHost + BigIntPowCost exampleConfig +
          MulUint64 (DataCopyPerByte exampleConfig) (nat (lengthOfResult 6 6)) +
          MulUint64 (DataCopyPerByte exampleConfig) (byteLength 6 + byteLength 6)) MaxInt64 \<and>
   8 * lengthOfResult 6 6 \<le> 6 * int (BitLen 6) \<and>
   6 * int (BitLen 6) < 8 * lengthOfResult 6 6 + 8"
  using BigIntPow_charges_floor_of_length [of exampleHost 1 6 1 6 exampleConfig 3]
  by (simp add: exampleHost_def)

text \<open>C9, as stated, fails: a truncated division by the zero under handle 2, into the
  handle 3 that holds nothing yet, leaves the handle table changed, since handle 3 now
  holds zero.\<close>

theorem BigIntTDiv_creates_destination_counterexample:
  "bigIntValues exampleHost 1 = Some 6 \<and> bigIntValues exampleHost 2 = Some 0 \<and>
   bigIntValues exampleHost 3 = None \<and>
   bigIntValues (BigIntTDiv exampleConfig 3 1 2 exampleHost) 3 = Some 0"
  by (simp add: example_states div_defs bigInt_defs Let_def)

text \<open>C9, amended. For truncated division, truncated modulus, Euclidean division and
  Euclidean modulus, when the operand handles hold values and the divisor is zero, the
  operation records the div-zero error and fails the execution; no quotient or remainder is
  stored: a destination handle that held a value keeps it, and one that held nothing is
  created with value zero. No other handle changes.\<close>

theorem division_by_zero_is_signalled:
  assumes "bigIntValues h op1 = Some a" and "bigIntValues h op2 = Some 0"
    and "f \<in> {BigIntTDiv, BigIntTMod, BigIntEDiv, BigIntEMod}"
  shows "bigIntValues (f cfg dest op1 op2 h) =
           (bigIntValues h)(dest \<mapsto> (case bigIntValues h dest of None \<Rightarrow> 0 | Some v \<Rightarrow> v)) \<and>
         allErrors (f cfg dest op1 op2 h) = allErrors h @ [ErrDivZero] \<and>
         returnCode (f cfg dest op1 op2 h) = ExecutionFailed \<and>
         breakpointValue (f cfg dest op1 op2 h) = BreakpointExecutionFailed"
proof (cases "bigIntValues h dest")
  case None
  then have "dest \<noteq> op1" "dest \<noteq> op2" using assms by auto
  with None assms show ?thesis
    by (auto simp: div_defs bigInt_defs Let_def)
next
  case (Some v)
  then have "(bigIntValues h)(dest \<mapsto> v) = bigIntValues h" by auto
  with Some assms show ?thesis
    by (auto simp: div_defs bigInt_defs Let_def)
qed

theorem division_by_zero_is_signalled_witness:
  "bigIntValues exampleHost 1 = Some 6 \<and> bigIntValues exampleHost 2 = Some 0 \<and>
   bigIntValues (BigIntTDiv exampleConfig 1 1 2 exampleHost) 1 = Some 6 \<and>
   bigIntValues (BigIntEDiv exampleConfig 1 1 2 exampleHost) 3 = None \<and>
   allErrors (BigIntTMod exampleConfig 3 1 2 exampleHost) = [ErrDivZero] \<and>
   returnCode (BigIntEMod exampleConfig 3 1 2 exampleHost) = ExecutionFailed"
proof -
  have a: "bigIntValues exampleHost 1 = Some 6"
    and b: "bigIntValues exampleHost 2 = Some 0"
    and c: "bigIntValues exampleHost 3 = None"
    and d: "allErrors exampleHost = []"
    by (simp_all add: exampleHost_def)
  show ?thesis
    using a b c d
      division_by_zero_is_signalled [OF a b, of BigIntTDiv exampleConfig 1]
      division_by_zero_is_signalled [OF a b, of BigIntEDiv exampleConfig 1]
      division_by_zero_is_signalled [OF a b, of BigIntTMod exampleConfig 3]
      division_by_zero_is_signalled [OF a b, of BigIntEMod exampleConfig 3]
    by simp
qed

section \<open>Gas setup of the async calls\<close>

lemma calls_ok:
  "gasNeeded + gasOf cs \<le> gasLeft \<Longrightarrow> gasLeft \<le> MaxUint64 \<Longrightarrow>
   setupGasOfCalls gasLeft gasNeeded z cs =
     (None, gasNeeded + gasOf cs, z + zerosOf cs, map settled cs)"
proof (induction cs arbitrary: gasNeeded z)
  case Nil
  then show ?case by (simp add: gasOf_def zerosOf_def)
next
  case (Cons c cs)
  from Cons.prems have 1: "gasNeeded + ProvidedGas c + gasOf cs \<le> gasLeft"
    by (simp add: gasOf_def)
  then have 2: "\<not> gasNeeded + ProvidedGas c > MaxUint64" "\<not> gasNeeded + ProvidedGas c > gasLeft"
    using Cons.prems(2) by linarith+
  show ?case
  proof (cases "ProvidedGas c = 0")
    case True
    with Cons.IH [OF 1 Cons.prems(2), of "z + 1"] 2 show ?thesis
      by (simp add: AddUint64_checked_def gasOf_def zerosOf_def settled_def)
  next
    case False
    with Cons.IH [OF 1 Cons.prems(2), of z] 2 show ?thesis
      by (simp add: AddUint64_checked_def gasOf_def zerosOf_def settled_def)
  qed
qed

lemma calls_fail:
  "gasNeeded \<le> gasLeft \<Longrightarrow> gasNeeded + gasOf cs > gasLeft \<Longrightarrow>
   fst (setupGasOfCalls gasLeft gasNeeded z cs) \<in> {Some ErrNotEnoughGas, Some ErrAdditionOverflow} \<and>
   (gasNeeded + gasOf cs \<le> MaxUint64 \<longrightarrow>
      fst (setupGasOfCalls gasLeft gasNeeded z cs) = Some ErrNotEnoughGas)"
proof (induction cs arbitrary: gasNeeded z)
  case Nil
  then show ?case by (simp add: gasOf_def)
next
  case (Cons c cs)
  show ?case
  proof (cases "gasNeeded + ProvidedGas c > MaxUint64")
    case True
    then show ?thesis by (simp add: AddUint64_checked_def gasOf_def)
  next
    case no: False
    show ?thesis
    proof (cases "gasNeeded + ProvidedGas c > gasLeft")
      case True
      with no show ?thesis by (simp add: AddUint64_checked_def)
    next
      case False
      then have a: "gasNeeded + ProvidedGas c \<le> gasLeft" by simp
      have b: "gasNeeded + ProvidedGas c + gasOf cs > gasLeft"
        using Cons.prems(2) by (simp add: gasOf_def)
      have c: "gasNeeded + ProvidedGas c + gasOf cs = gasNeeded + gasOf (c # cs)"
        by (simp add: gasOf_def)
      show ?thesis
      proof (cases "ProvidedGas c = 0")
        case True
        with Cons.IH [OF a b, of "z + 1"] no False c show ?thesis
          by (simp add: AddUint64_checked_def case_prod_beta)
      next
        case nz: False
        with Cons.IH [OF a b, of z] no False c show ?thesis
          by (simp add: AddUint64_checked_def case_prod_beta)
      qed
    qed
  qed
qed


lemma groups_ok:
  "gasNeeded + gasOf (callsOf gs) \<le> gasLeft \<Longrightarrow> gasLeft \<le> MaxUint64 \<Longrightarrow>
   setupGasOfGroups gasLeft gasNeeded z gs =
     (None, gasNeeded + gasOf (callsOf gs), z + zerosOf (callsOf gs), mapCalls settled gs)"
proof (induction gs arbitrary: gasNeeded z)
  case Nil
  then show ?case by (simp add: gasOf_def zerosOf_def callsOf_def mapCalls_def)
next
  case (Cons p gs)
  obtain groupID g where p: "p = (groupID, g)" by (cases p)
  have split: "gasOf (callsOf ((groupID, g) # gs)) = gasOf (AsyncCalls g) + gasOf (callsOf gs)"
    "zerosOf (callsOf ((groupID, g) # gs)) = zerosOf (AsyncCalls g) + zerosOf (callsOf gs)"
    by (simp_all add: gasOf_def zerosOf_def callsOf_def)
  have 1: "gasNeeded + gasOf (AsyncCalls g) \<le> gasLeft"
    using Cons.prems(1) split by (simp add: p)
  have 2: "gasNeeded + gasOf (AsyncCalls g) + gasOf (callsOf gs) \<le> gasLeft"
    using Cons.prems(1) split by (simp add: p)
  show ?case
    using calls_ok [OF 1 Cons.prems(2), of z] Cons.IH [OF 2 Cons.prems(2), of "z + zerosOf (AsyncCalls g)"]
    by (simp add: p split mapCalls_def)
qed

lemma groups_fail:
  "gasNeeded \<le> gasLeft \<Longrightarrow> gasLeft \<le> MaxUint64 \<Longrightarrow> gasNeeded + gasOf (callsOf gs) > gasLeft \<Longrightarrow>
   fst (setupGasOfGroups gasLeft gasNeeded z gs) \<in> {Some ErrNotEnoughGas, Some ErrAdditionOverflow} \<and>
   (gasNeeded + gasOf (callsOf gs) \<le> MaxUint64 \<longrightarrow>
      fst (setupGasOfGroups gasLeft gasNeeded z gs) = Some ErrNotEnoughGas)"
proof (induction gs arbitrary: gasNeeded z)
  case Nil
  then show ?case by (simp add: gasOf_def callsOf_def)
next
  case (Cons p gs)
  obtain groupID g where p: "p = (groupID, g)" by (cases p)
  have split: "gasOf (callsOf ((groupID, g) # gs)) = gasOf (AsyncCalls g) + gasOf (callsOf gs)"
    by (simp_all add: gasOf_def callsOf_def)
  show ?case
  proof (cases "gasNeeded + gasOf (AsyncCalls g) > gasLeft")
    case True
    have "gasNeeded + gasOf (AsyncCalls g) \<le> gasNeeded + gasOf (callsOf ((groupID, g) # gs))"
      using split by simp
    then show ?thesis
      using calls_fail [OF Cons.prems(1) True, of z]
      by (auto simp: p split: prod.splits option.splits)
  next
    case False
    then have 1: "gasNeeded + gasOf (AsyncCalls g) \<le> gasLeft" by simp
    have 2: "gasNeeded + gasOf (AsyncCalls g) + gasOf (callsOf gs) > gasLeft"
      using Cons.prems(3) split by (simp add: p)
    show ?thesis
      using calls_ok [OF 1 Cons.prems(2), of z]
        Cons.IH [OF 1 Cons.prems(2) 2, of "z + zerosOf (AsyncCalls g)"]
      by (simp add: p split case_prod_beta add.assoc)
  qed
qed


lemma shareGas_settled:
  "shareGas share (mapCalls settled gs) =
   mapCalls (\<lambda>c. c\<lparr>GasLimit := (if ProvidedGas c = 0 then share else ProvidedGas c)\<rparr>) gs"
  by (auto simp: shareGas_def mapCalls_def settled_def)

lemma settled_without_zeros:
  "zerosOf (callsOf gs) = 0 \<Longrightarrow>
   mapCalls settled gs =
   mapCalls (\<lambda>c. c\<lparr>GasLimit := (if ProvidedGas c = 0 then share else ProvidedGas c)\<rparr>) gs"
proof (induction gs)
  case Nil
  then show ?case by (simp add: mapCalls_def)
next
  case (Cons p gs)
  obtain groupID g where p: "p = (groupID, g)" by (cases p)
  from Cons.prems have nz: "\<forall>c \<in> set (AsyncCalls g). ProvidedGas c \<noteq> 0"
    and rest: "zerosOf (callsOf gs) = 0"
    by (auto simp: p zerosOf_def callsOf_def filter_empty_conv)
  have "map settled (AsyncCalls g) =
     map (\<lambda>c. c\<lparr>GasLimit := (if ProvidedGas c = 0 then share else ProvidedGas c)\<rparr>) (AsyncCalls g)"
    using nz by (intro map_cong) (auto simp: settled_def)
  then show ?case
    using Cons.IH [OF rest] by (simp add: p mapCalls_def)
qed

lemma withGasLimits_mapCalls:
  "withGasLimits f ctx = ctx\<lparr>AsyncCallGroups := mapCalls (\<lambda>c. c\<lparr>GasLimit := f c\<rparr>) (AsyncCallGroups ctx)\<rparr>"
  by (simp add: withGasLimits_def mapCalls_def)

lemma specifiedGas_alt: "specifiedGas ctx = gasOf (callsOf (AsyncCallGroups ctx))"
  by (simp add: specifiedGas_def allCalls_def gasOf_def callsOf_def)

lemma zeroGasCalls_alt: "zeroGasCalls ctx = zerosOf (callsOf (AsyncCallGroups ctx))"
  by (simp add: zeroGasCalls_def allCalls_def zerosOf_def callsOf_def)

lemmas async_examples = callWithGas_def contextOf_def okOutput_def frameInput_def
  twoCallContext_def exampleUnmarshal_def exampleMarshal_def exampleAsyncKey_def

lemmas gas_setup_eval =
  GasLeft_def specifiedGas_def zeroGasCalls_def allCalls_def setupAsyncCallsGas_def
  AddUint64_checked_def MaxUint64_def shareGas_def Let_def

text \<open>C3, as stated, fails: with 1000 gas left, one call specified with 1000 gas and one
  with zero gas, the specified gas does not exceed the gas left, yet the setup fails with
  not-enough-gas and the zero-gas call keeps the gas limit 7 it had, instead of getting the
  share (1000 - 1000) / 1 = 0.\<close>

theorem setupAsyncCallsGas_equal_gas_counterexample:
  "GasLeft exampleHost = 1000 \<and> specifiedGas (contextOf [1000, 0]) = 1000 \<and>
   zeroGasCalls (contextOf [1000, 0]) = 1 \<and>
   fst (setupAsyncCallsGas exampleHost (contextOf [1000, 0])) = Some ErrNotEnoughGas \<and>
   map GasLimit (allCalls (snd (setupAsyncCallsGas exampleHost (contextOf [1000, 0])))) =
     [1000, 7]"
  by (simp add: example_states async_examples gas_setup_eval)

text \<open>C3, amended. For every async context, with the gas left a 64-bit number: if the
  sum of the developer-specified gas over all calls in all groups exceeds the gas left, the
  setup fails, with not-enough-gas when that sum fits in 64 bits (with the overflow error
  of the addition or not-enough-gas otherwise); if the sum equals the gas left and some call
  is specified with zero gas, the setup fails with not-enough-gas as well; in every other
  case the setup succeeds, every call specified with zero gas gets the gas limit (gas-left
  - gas-needed) divided by the number of zero-gas calls, every other call gets its specified
  gas as gas limit, and nothing else changes.\<close>

theorem setupAsyncCallsGas_outcome:
  assumes "GasLeft h \<le> MaxUint64"
  shows "(GasLeft h < specifiedGas ctx \<longrightarrow>
            fst (setupAsyncCallsGas h ctx) \<in> {Some ErrNotEnoughGas, Some ErrAdditionOverflow} \<and>
            (specifiedGas ctx \<le> MaxUint64 \<longrightarrow>
               fst (setupAsyncCallsGas h ctx) = Some ErrNotEnoughGas)) \<and>
         (specifiedGas ctx = GasLeft h \<and> 0 < zeroGasCalls ctx \<longrightarrow>
            fst (setupAsyncCallsGas h ctx) = Some ErrNotEnoughGas) \<and>
         (specifiedGas ctx \<le> GasLeft h \<and> (zeroGasCalls ctx = 0 \<or> specifiedGas ctx < GasLeft h) \<longrightarrow>
            setupAsyncCallsGas h ctx =
              (None,
               withGasLimits
                 (\<lambda>c. if ProvidedGas c = 0
                      then (GasLeft h - specifiedGas ctx) div zeroGasCalls ctx
                      else ProvidedGas c) ctx))"
proof (intro conjI impI)
  assume "GasLeft h < specifiedGas ctx"
  then have "0 + gasOf (callsOf (AsyncCallGroups ctx)) > GasLeft h"
    by (simp add: specifiedGas_alt)
  from groups_fail [OF _ assms this, of 0]
  show "fst (setupAsyncCallsGas h ctx) \<in> {Some ErrNotEnoughGas, Some ErrAdditionOverflow}"
    by (auto simp: setupAsyncCallsGas_def Let_def split: prod.splits option.splits)
  assume "specifiedGas ctx \<le> MaxUint64"
  with groups_fail [OF _ assms \<open>0 + gasOf (callsOf (AsyncCallGroups ctx)) > GasLeft h\<close>, of 0]
  show "fst (setupAsyncCallsGas h ctx) = Some ErrNotEnoughGas"
    by (auto simp: setupAsyncCallsGas_def Let_def specifiedGas_alt split: prod.splits option.splits)
next
  assume a: "specifiedGas ctx = GasLeft h \<and> 0 < zeroGasCalls ctx"
  then have "0 + gasOf (callsOf (AsyncCallGroups ctx)) \<le> GasLeft h"
    by (simp add: specifiedGas_alt)
  from groups_ok [OF this assms, of 0] a
  show "fst (setupAsyncCallsGas h ctx) = Some ErrNotEnoughGas"
    by (simp add: setupAsyncCallsGas_def Let_def specifiedGas_alt zeroGasCalls_alt)
next
  assume a: "specifiedGas ctx \<le> GasLeft h \<and> (zeroGasCalls ctx = 0 \<or> specifiedGas ctx < GasLeft h)"
  then have "0 + gasOf (callsOf (AsyncCallGroups ctx)) \<le> GasLeft h"
    by (simp add: specifiedGas_alt)
  note ok = groups_ok [OF this assms, of 0]
  show "setupAsyncCallsGas h ctx =
      (None,
       withGasLimits
         (\<lambda>c. if ProvidedGas c = 0
              then (GasLeft h - specifiedGas ctx) div zeroGasCalls ctx
              else ProvidedGas c) ctx)"
  proof (cases "zeroGasCalls ctx = 0")
    case True
    then have z: "zerosOf (callsOf (AsyncCallGroups ctx)) = 0"
      by (simp add: zeroGasCalls_alt)
    show ?thesis
      using ok z settled_without_zeros [OF z]
      by (simp add: setupAsyncCallsGas_def Let_def withGasLimits_mapCalls)
  next
    case False
    with a have lt: "specifiedGas ctx < GasLeft h" by simp
    show ?thesis
      unfolding specifiedGas_alt zeroGasCalls_alt
      using ok False lt
      by (simp add: setupAsyncCallsGas_def Let_def withGasLimits_mapCalls shareGas_settled
          specifiedGas_alt zeroGasCalls_alt)
  qed
qed

theorem setupAsyncCallsGas_outcome_witness:
  "GasLeft exampleHost \<le> MaxUint64 \<and>
   GasLeft exampleHost < specifiedGas (contextOf [600, 600]) \<and>
   specifiedGas (contextOf [600, 600]) \<le> MaxUint64 \<and>
   fst (setupAsyncCallsGas exampleHost (contextOf [600, 600])) = Some ErrNotEnoughGas \<and>
   specifiedGas (contextOf [1000, 0]) = GasLeft exampleHost \<and>
   0 < zeroGasCalls (contextOf [1000, 0]) \<and>
   fst (setupAsyncCallsGas exampleHost (contextOf [1000, 0])) = Some ErrNotEnoughGas \<and>
   specifiedGas (contextOf [400, 0, 0]) < GasLeft exampleHost \<and>
   map GasLimit (allCalls (snd (setupAsyncCallsGas exampleHost (contextOf [400, 0, 0])))) =
     [400, 300, 300]"
proof -
  have le: "GasLeft exampleHost \<le> MaxUint64"
    by (simp add: exampleHost_def GasLeft_def MaxUint64_def)
  show ?thesis
    using le setupAsyncCallsGas_outcome [OF le, of "contextOf [600, 600]"]
      setupAsyncCallsGas_outcome [OF le, of "contextOf [1000, 0]"]
      setupAsyncCallsGas_outcome [OF le, of "contextOf [400, 0, 0]"]
    by (simp add: example_states async_examples gas_setup_eval withGasLimits_def
        numeral_2_eq_2 [symmetric])
qed

section \<open>The callback input of a local async call\<close>

lemma bigIntBytes_0: "bigIntBytes 0 = []"
  by (simp add: bigIntBytes.simps)

lemmas callback_input_defs =
  createCallbackContractCallInput_def callbackArguments_def
  computeDataLengthFromArguments_def

text \<open>C4, as stated, fails: the destination returned code 0 and no data with 100 gas
  remaining, the callback is \<open>callBack\<close>, the async-call step costs 10 and a byte 3. The
  claim gives the callback 100 - (10 + 3 * 0) = 90 gas; the code gives it 63, since it
  charges the 9 bytes of the data field \<open>callBack@\<close>. With 20 gas remaining the claim lets
  the construction succeed; the code fails with not-enough-gas.\<close>

theorem callback_gas_counterexample:
  "vo_ReturnData okOutput = [] \<and> vo_GasRemaining okOutput = 100 \<and>
   AsyncCallStep exampleConfig = 10 \<and> DataCopyPerByte exampleConfig = 3 \<and>
   map_sum id (\<lambda>i. GasProvided (VMInputOf i))
     (createCallbackContractCallInput exampleConfig frameInput [1] okOutput [2] ''callBack''
        None) = Inr 63 \<and>
   createCallbackContractCallInput exampleConfig frameInput [1]
     (okOutput\<lparr>vo_GasRemaining := 20\<rparr>) [2] ''callBack'' None = Inl ErrNotEnoughGas"
  by (simp add: example_states async_examples callback_input_defs bigIntBytes_0 Let_def)

text \<open>C4, amended. For every local async call whose destination execution produced output
  with gas-remaining g, let the data length be the length of the callback's name, plus one
  separator for each argument, plus the lengths of all arguments (the status bytes, then the
  return data, or the return message after an error), and let the deduction be
  async-call-step plus data-copy-per-byte times that data length, computed in wrapping
  64-bit arithmetic. The constructed callback input has call-kind asynchronous-callback,
  first argument the status bytes, and gas-provided g minus the deduction; construction
  fails with not-enough-gas when g is not strictly greater than the deduction.\<close>

theorem callback_input_gas:
  fixes out :: VMOutput and fn :: string and err :: "error option" and cfg :: config
  defines "status \<equiv> bigIntBytes (vo_ReturnCode out)"
  defines "rest \<equiv> (if err = None then vo_ReturnData out else [vo_ReturnMessage out])"
  defines "dataLength \<equiv>
             length fn + (1 + length rest) + (length status + sum_list (map length rest))"
  defines "gasToUse \<equiv>
             (AsyncCallStep cfg + (DataCopyPerByte cfg * dataLength) mod 2 ^ 64) mod 2 ^ 64"
  shows "(vo_GasRemaining out \<le> gasToUse \<longrightarrow>
           createCallbackContractCallInput cfg vmInput sc out initiator fn err =
             Inl ErrNotEnoughGas) \<and>
         (gasToUse < vo_GasRemaining out \<longrightarrow>
           (\<exists>input.
              createCallbackContractCallInput cfg vmInput sc out initiator fn err = Inr input \<and>
              CallType (VMInputOf input) = AsynchronousCallBack \<and>
              Arguments (VMInputOf input) = status # rest \<and>
              GasProvided (VMInputOf input) = vo_GasRemaining out - gasToUse \<and>
              CallerAddr (VMInputOf input) = initiator \<and>
              RecipientAddr input = sc \<and> Function input = fn))"
  unfolding status_def rest_def dataLength_def gasToUse_def
  by (simp add: callback_input_defs Let_def)

theorem callback_input_gas_witness:
  "(37 :: nat) < vo_GasRemaining okOutput \<and>
   map_sum id (\<lambda>i. (CallType (VMInputOf i), Arguments (VMInputOf i), GasProvided (VMInputOf i)))
     (createCallbackContractCallInput exampleConfig frameInput [1] okOutput [2] ''callBack''
        None) = Inr (AsynchronousCallBack, [[]], 63) \<and>
   vo_GasRemaining (okOutput\<lparr>vo_GasRemaining := 20\<rparr>) \<le> (37 :: nat) \<and>
   createCallbackContractCallInput exampleConfig frameInput [1]
     (okOutput\<lparr>vo_GasRemaining := 20\<rparr>) [2] ''callBack'' None = Inl ErrNotEnoughGas"
  using callback_input_gas
      [where out = okOutput and cfg = exampleConfig and fn = "''callBack''" and err = None
         and vmInput = frameInput and sc = "[1]" and initiator = "[2]"]
    callback_input_gas
      [where out = "okOutput\<lparr>vo_GasRemaining := 20\<rparr>" and cfg = exampleConfig
         and fn = "''callBack''" and err = None and vmInput = frameInput and sc = "[1]"
         and initiator = "[2]"]
  by (auto simp: example_states async_examples bigIntBytes_0)

section \<open>The callback that arrives from another shard\<close>

text \<open>C1. The persisted context holds one group with two pending calls, to the contracts
  2 and 3, and the callback of contract 2 arrives. \<open>processCallbackStack\<close> returns without
  error and has done nothing but read the storage: the update under the async-data key is
  the read cache of the old bytes, not written. Saving the context that remains, as
  \<open>savePendingAsyncCalls\<close> would, leaves there the bytes of the remaining context, written.\<close>

theorem processCallbackStack_does_not_save:
  "processCallbackStack exampleConfig exampleUnmarshal exampleAsyncKey (\<lambda>_ h. (None, h))
     frameInput exampleHost =
     (None, snd (GetStorage exampleConfig [75, 9] exampleHost)) \<and>
   storageUpdates
     (snd (processCallbackStack exampleConfig exampleUnmarshal exampleAsyncKey
             (\<lambda>_ h. (None, h)) frameInput exampleHost)) [1] [75, 9] =
     Some \<lparr>Offset = [75, 9], Data = [5, 5], Written = False\<rparr> \<and>
   storageUpdates
     (snd (savePendingAsyncCalls exampleConfig exampleMarshal exampleAsyncKey frameInput
             (twoCallContext
                \<lparr>AsyncCallGroups :=
                   [(''g'', \<lparr>Callback = ''cb'', AsyncCalls = [callWithGas [3] 0]\<rparr>)]\<rparr>)
             (snd (GetStorage exampleConfig [75, 9] exampleHost)))) [1] [75, 9] =
     Some \<lparr>Offset = [75, 9], Data = [1], Written = True\<rparr>"
  by (simp add: example_states async_examples processCallbackStack_def
      savePendingAsyncCalls_def storage_read_defs storage_write_defs Let_def UseGas_def
      MulUint64_def MaxUint64_def storageModified_def computeGasForSmallerValues_def
      AddUint64_def)

end
